theory Spec2Isabelle
  imports Complex_Main "HOL-Library.Log_Nat"
begin

section \<open>The controller state\<close>

text \<open>
  The instance attributes of \<^verbatim>\<open>BuildingAutomationSystem\<close> that hold the facility state
  (\<^verbatim>\<open>__init__\<close>, lines 30-62 of \<^verbatim>\<open>BAS_Controller.py\<close>). The Tk variables are modelled by
  the value they hold: a \<^verbatim>\<open>StringVar\<close> by a string, a \<^verbatim>\<open>BooleanVar\<close> by a bool, a
  \<^verbatim>\<open>DoubleVar\<close> by the real number that the float it holds denotes. Where
  \<^verbatim>\<open>monitor_temperature\<close> and \<^verbatim>\<open>monitor_energy_usage\<close> compute with floats, every operation
  is rounded to the nearest double, as CPython does (section Floats). The text widget
  \<^verbatim>\<open>log_text\<close> is the list of the messages inserted so far, oldest first; the wall-clock
  prefix that \<^verbatim>\<open>log_event\<close> puts in front of each message is left out.
\<close>

record bas =
  lights_state :: string
  door_relay_state :: string
  current_temp :: real
  temp_min :: real
  temp_max :: real
  current_humidity :: real
  door_open_time :: real
  lights_on_time :: string
  lights_off_time :: string
  auto_mode :: bool
  scheduled_mode :: bool
  energy_usage :: real
  last_energy_update :: real
  current_mode :: string
  is_connected :: bool
  log_text :: "string list"

definition log_event :: "string \<Rightarrow> bas \<Rightarrow> bas" where
  "log_event message s = s\<lparr>log_text := log_text s @ [message]\<rparr>"

text \<open>
  The attribute values set by \<^verbatim>\<open>__init__\<close> before it calls \<^verbatim>\<open>setup_gui\<close>; \<open>t0\<close> is the
  reading of \<^verbatim>\<open>time.time()\<close> stored in \<^verbatim>\<open>last_energy_update\<close>.
\<close>

definition initial :: "real \<Rightarrow> bas" where
  "initial t0 =
     \<lparr>lights_state = ''Off'', door_relay_state = ''Off'', current_temp = 22,
      temp_min = 20, temp_max = 25, current_humidity = 45, door_open_time = 0,
      lights_on_time = ''07:00'', lights_off_time = ''19:00'', auto_mode = False,
      scheduled_mode = False, energy_usage = 0, last_energy_update = t0,
      current_mode = ''Manual'', is_connected = False, log_text = []\<rparr>"

section \<open>The serial ports\<close>

text \<open>
  What a serial port does during one call is given by the environment. An exception is
  the text \<^verbatim>\<open>str(e)\<close> that the handler logs. For the lighting controller, \<open>Inl e\<close> says
  that opening the port raised \<open>e\<close>; \<open>Inr ser\<close> says that it opened, and \<open>ser frame\<close> is
  what writing \<open>frame\<close> and reading the reply line gives: \<open>Inl e\<close> when either raises,
  \<open>Inr response\<close> otherwise. For the door relay the single exchange either raises
  (\<open>Inl e\<close>) or returns the reply (\<open>Inr response\<close>), which the code reads and ignores.
\<close>

type_synonym exn = string
type_synonym light_serial = "exn + (string \<Rightarrow> exn + string)"
type_synonym door_serial = "exn + string"

definition commands_to_turn_on_lights :: "string list" where
  "commands_to_turn_on_lights =
     [''SDL,4,100'' @ [CHR 0x0D] @ [CHR 0x0A],
      ''SDL,2,100'' @ [CHR 0x0D] @ [CHR 0x0A],
      ''SDL,3,100'' @ [CHR 0x0D] @ [CHR 0x0A],
      ''SDL,6,100'' @ [CHR 0x0D] @ [CHR 0x0A]]"

definition commands_to_turn_off_lights :: "string list" where
  "commands_to_turn_off_lights =
     [''SDL,4,0'' @ [CHR 0x0D] @ [CHR 0x0A],
      ''SDL,2,0'' @ [CHR 0x0D] @ [CHR 0x0A],
      ''SDL,3,0'' @ [CHR 0x0D] @ [CHR 0x0A],
      ''SDL,6,0'' @ [CHR 0x0D] @ [CHR 0x0A]]"

text \<open>
  The \<^verbatim>\<open>for command in ...\<close> loop inside the \<^verbatim>\<open>with serial.Serial(...)\<close> block of
  \<^verbatim>\<open>turn_on_lights\<close> and \<^verbatim>\<open>turn_off_lights\<close>: each reply is logged before the next frame
  is written. The result is the exception that ended the loop, if any, and the state
  with the replies logged up to there.
\<close>

fun send_commands :: "(string \<Rightarrow> exn + string) \<Rightarrow> string list \<Rightarrow> bas \<Rightarrow> exn option \<times> bas" where
  "send_commands ser [] s = (None, s)"
| "send_commands ser (command # commands) s =
     (case ser command of
        Inl e \<Rightarrow> (Some e, s)
      | Inr response \<Rightarrow>
          send_commands ser commands (log_event (''Light command response: '' @ response) s))"

section \<open>Actuation\<close>

definition turn_on_lights :: "light_serial \<Rightarrow> bas \<Rightarrow> bas" where
  "turn_on_lights port s =
     (if \<not> is_connected s then
        log_event ''System not connected. Unable to turn on lights.'' s
      else
        (case port of
           Inl e \<Rightarrow> (log_event (''Error turning on lights: '' @ e) s)\<lparr>lights_state := ''On''\<rparr>
         | Inr ser \<Rightarrow>
             (case send_commands ser commands_to_turn_on_lights s of
                (Some e, s1) \<Rightarrow>
                  (log_event (''Error turning on lights: '' @ e) s1)\<lparr>lights_state := ''On''\<rparr>
              | (None, s1) \<Rightarrow>
                  log_event ''Lights turned ON'' (s1\<lparr>lights_state := ''On''\<rparr>))))"

definition turn_off_lights :: "light_serial \<Rightarrow> bas \<Rightarrow> bas" where
  "turn_off_lights port s =
     (if \<not> is_connected s then
        log_event ''System not connected. Unable to turn off lights.'' s
      else
        (case port of
           Inl e \<Rightarrow> (log_event (''Error turning off lights: '' @ e) s)\<lparr>lights_state := ''Off''\<rparr>
         | Inr ser \<Rightarrow>
             (case send_commands ser commands_to_turn_off_lights s of
                (Some e, s1) \<Rightarrow>
                  (log_event (''Error turning off lights: '' @ e) s1)\<lparr>lights_state := ''Off''\<rparr>
              | (None, s1) \<Rightarrow>
                  log_event ''Lights turned OFF'' (s1\<lparr>lights_state := ''Off''\<rparr>))))"

text \<open>
  \<open>now\<close> is the reading of \<^verbatim>\<open>time.time()\<close> taken when the door opens. The handler of
  \<^verbatim>\<open>turn_on_door_relay\<close> sets the relay state and nothing else.
\<close>

definition turn_on_door_relay :: "door_serial \<Rightarrow> real \<Rightarrow> bas \<Rightarrow> bas" where
  "turn_on_door_relay port now s =
     (if \<not> is_connected s then
        log_event ''System not connected. Unable to open door.'' s
      else
        (case port of
           Inl e \<Rightarrow> (log_event (''Error opening door: '' @ e) s)\<lparr>door_relay_state := ''On''\<rparr>
         | Inr response \<Rightarrow>
             log_event ''Door opened''
               ((log_event ''Door relay command sent'' s)
                  \<lparr>door_relay_state := ''On'', door_open_time := now\<rparr>)))"

definition turn_off_door_relay :: "door_serial \<Rightarrow> bas \<Rightarrow> bas" where
  "turn_off_door_relay port s =
     (if \<not> is_connected s then
        log_event ''System not connected. Unable to close door.'' s
      else
        (case port of
           Inl e \<Rightarrow> (log_event (''Error closing door: '' @ e) s)\<lparr>door_relay_state := ''Off''\<rparr>
         | Inr response \<Rightarrow>
             log_event ''Door closed''
               ((log_event ''Door relay command sent'' s)\<lparr>door_relay_state := ''Off''\<rparr>)))"

section \<open>Floats\<close>

text \<open>
  A Python float is an IEEE 754 double. \<open>nearest_float x\<close> is the double nearest to the
  real \<open>x\<close>, the one with the even significand of two that are equally near: with
  \<open>binade x\<close> the integer \<open>e\<close> such that \<open>2 ^ e \<le> \<bar>x\<bar> < 2 ^ (e + 1)\<close>, the doubles around
  \<open>x\<close> are the multiples of \<open>2 ^ (e - 52)\<close>, and of \<open>2 ^ (- 1074)\<close> below the normal
  range. Overflow to infinity is not modelled: the values of this program stay far below
  the largest double. A float literal such as \<^verbatim>\<open>0.1\<close> is \<open>nearest_float 0.1\<close>; literals
  such as \<^verbatim>\<open>1.0\<close> and \<^verbatim>\<open>0.5\<close> are doubles and written as they are. The four operations
  on floats round their exact result.
\<close>

definition round_half_even :: "real \<Rightarrow> int" where
  "round_half_even x =
     (let f = \<lfloor>x\<rfloor>; d = x - of_int f in
      if d < 1 / 2 then f else if 1 / 2 < d then f + 1 else if even f then f else f + 1)"

definition binade :: "real \<Rightarrow> int" where
  "binade x =
     (if 1 \<le> \<bar>x\<bar> then bitlen \<lfloor>\<bar>x\<bar>\<rfloor> - 1 else - bitlen (\<lceil>1 / \<bar>x\<bar>\<rceil> - 1))"

definition two_to :: "int \<Rightarrow> real" where
  "two_to k = (if 0 \<le> k then 2 ^ nat k else 1 / 2 ^ nat (- k))"

definition nearest_float :: "real \<Rightarrow> real" where
  "nearest_float x =
     (if x = 0 then 0
      else (let q = two_to (max (binade x) (- 1022) - 52)
            in of_int (round_half_even (x / q)) * q))"

definition fadd :: "real \<Rightarrow> real \<Rightarrow> real" where
  "fadd a b = nearest_float (a + b)"

definition fsub :: "real \<Rightarrow> real \<Rightarrow> real" where
  "fsub a b = nearest_float (a - b)"

definition fmul :: "real \<Rightarrow> real \<Rightarrow> real" where
  "fmul a b = nearest_float (a * b)"

definition fdiv :: "real \<Rightarrow> real \<Rightarrow> real" where
  "fdiv a b = nearest_float (a / b)"

text \<open>
  Python's \<^verbatim>\<open>round(x, ndigits)\<close> on a float \<open>x\<close>: the exact value of \<open>x\<close> is rounded to
  the closest multiple of \<open>10 ^ -ndigits\<close>, the even one of two that are equally close,
  and the result is the double nearest to that decimal.
\<close>

definition py_round :: "real \<Rightarrow> nat \<Rightarrow> real" where
  "py_round x ndigits =
     nearest_float (of_int (round_half_even (x * 10 ^ ndigits)) / 10 ^ ndigits)"

section \<open>Dialogs\<close>

text \<open>
  The dialogs of \<^verbatim>\<open>tkinter.messagebox\<close>, with title and text. The degree sign of the
  messages is its two bytes in UTF-8. The conversion of a float to text inside an
  f-string is a parameter \<open>float_str\<close> of the functions that format one.
\<close>

datatype messagebox = showinfo string string | showerror string string

definition degree_sign :: string where
  "degree_sign = [CHR 0xC2, CHR 0xB0]"

section \<open>Commands\<close>

text \<open>
  \<^verbatim>\<open>set_temperature_range\<close> takes no argument: the two bounds are the values of the
  variables \<^verbatim>\<open>temp_min\<close> and \<^verbatim>\<open>temp_max\<close>, to which the entry fields are bound. The
  \<^verbatim>\<open>ValueError\<close> handler is not reached in the model, where both hold a number.
\<close>

definition set_temperature_range :: "(real \<Rightarrow> string) \<Rightarrow> bas \<Rightarrow> bas \<times> messagebox" where
  "set_temperature_range float_str s =
     (let min_temp = temp_min s; max_temp = temp_max s in
      if min_temp \<ge> max_temp then
        (s, showerror ''Error'' ''Minimum temperature must be less than maximum temperature.'')
      else
        (let text = ''Temperature range set: '' @ float_str min_temp @ degree_sign @ ''C to ''
                      @ float_str max_temp @ degree_sign @ ''C''
         in (log_event text s, showinfo ''Success'' text)))"

definition change_mode :: "light_serial \<Rightarrow> string \<Rightarrow> bas \<Rightarrow> bas" where
  "change_mode port mode s =
     (let s0 = s\<lparr>current_mode := mode\<rparr>;
          s1 = (if mode = ''Auto'' then s0\<lparr>auto_mode := True, scheduled_mode := False\<rparr>
                else if mode = ''Schedule'' then s0\<lparr>auto_mode := False, scheduled_mode := True\<rparr>
                else if mode = ''Energy Saving'' then
                  turn_off_lights port
                    (s0\<lparr>auto_mode := True, scheduled_mode := True, temp_min := 18, temp_max := 23\<rparr>)
                else s0\<lparr>auto_mode := False, scheduled_mode := False\<rparr>)
      in log_event (''Mode changed to '' @ mode) s1)"

record macro =
  lights :: string
  temperature :: real
  door :: string

definition macros :: "string \<Rightarrow> macro option" where
  "macros = map_of
     [(''Morning'', \<lparr>lights = ''On'', temperature = 22, door = ''Off''\<rparr>),
      (''Day'', \<lparr>lights = ''On'', temperature = 23, door = ''Off''\<rparr>),
      (''Evening'', \<lparr>lights = ''On'', temperature = 21, door = ''Off''\<rparr>),
      (''Night'', \<lparr>lights = ''Off'', temperature = 19, door = ''Off''\<rparr>),
      (''Away'', \<lparr>lights = ''Off'', temperature = 18, door = ''Off''\<rparr>)]"

definition apply_macro ::
  "light_serial \<Rightarrow> door_serial \<Rightarrow> real \<Rightarrow> string \<Rightarrow> bas \<Rightarrow> bas \<times> messagebox" where
  "apply_macro port port2 now macro_name s =
     (case macros macro_name of
        Some m \<Rightarrow>
          (let s1 = (if lights m = ''On'' then turn_on_lights port s else turn_off_lights port s);
               s2 = s1\<lparr>current_temp := temperature m\<rparr>;
               s3 = (if door m = ''On'' then turn_on_door_relay port2 now s2
                     else turn_off_door_relay port2 s2)
           in (log_event (''Applied macro: '' @ macro_name) s3,
               showinfo ''Macro Applied'' (''The '' @ macro_name @ '' macro has been applied.'')))
      | None \<Rightarrow>
          (s, showerror ''Error''
                (''Macro '' @ [CHR 0x27] @ macro_name @ [CHR 0x27] @ '' not found.'')))"

section \<open>Monitors\<close>

text \<open>
  Each monitor is a \<^verbatim>\<open>while True\<close> loop around a \<^verbatim>\<open>try\<close> block followed by a sleep. The
  functions named \<open>_body\<close> are one pass through the \<^verbatim>\<open>try\<close> block. The actuation
  functions catch every exception themselves, so in the model the body does not raise
  and the \<^verbatim>\<open>except\<close> branch of the monitor is not reached.

  \<^verbatim>\<open>start_all_monitoring\<close> starts the threads; the result lists their targets.
\<close>

datatype thread =
  Thread_monitor_temperature | Thread_monitor_schedule | Thread_auto_mode_monitor
| Thread_monitor_energy_usage

definition start_all_monitoring :: "bas \<Rightarrow> thread list \<times> bas" where
  "start_all_monitoring s =
     ([Thread_monitor_temperature, Thread_monitor_schedule]
        @ (if auto_mode s then [Thread_auto_mode_monitor] else [])
        @ [Thread_monitor_energy_usage],
      log_event ''All monitoring systems started'' s)"

text \<open>
  \<open>fluctuation\<close> and \<open>humidity_change\<close> are the two draws of \<^verbatim>\<open>random.uniform\<close>. The
  comparisons with the range are on \<open>new_temp\<close>, the float sum before \<^verbatim>\<open>round\<close>; the
  variable \<^verbatim>\<open>current_temp\<close> receives the sum rounded to one decimal.
\<close>

definition monitor_temperature_body ::
  "(real \<Rightarrow> string) \<Rightarrow> light_serial \<Rightarrow> real \<Rightarrow> real \<Rightarrow> bas \<Rightarrow> bas" where
  "monitor_temperature_body float_str port fluctuation humidity_change s =
     (let current = current_temp s;
          new_temp = fadd current fluctuation;
          s1 = s\<lparr>current_temp := py_round new_temp 1\<rparr>;
          current_humidity' = current_humidity s1;
          new_humidity = fadd current_humidity' humidity_change;
          s2 = s1\<lparr>current_humidity := py_round (max 30 (min 70 new_humidity)) 1\<rparr>
      in if new_temp < temp_min s2 \<and> auto_mode s2 then
           turn_on_lights port
             (log_event (''Temperature below minimum ('' @ float_str new_temp @ degree_sign
                           @ ''C). Activating heating.'') s2)
         else if new_temp > temp_max s2 \<and> auto_mode s2 then
           turn_off_lights port
             (log_event (''Temperature above maximum ('' @ float_str new_temp @ degree_sign
                           @ ''C). Deactivating heating.'') s2)
         else s2)"

text \<open>
  \<open>now\<close> is the reading of \<^verbatim>\<open>time.time()\<close> in the door test. The whole body is under
  \<^verbatim>\<open>if self.auto_mode.get()\<close>.
\<close>

definition auto_mode_monitor_body :: "light_serial \<Rightarrow> door_serial \<Rightarrow> real \<Rightarrow> bas \<Rightarrow> bas" where
  "auto_mode_monitor_body port port2 now s =
     (if auto_mode s then
        (let current_temp' = current_temp s;
             s1 = (if current_temp' < temp_min s then
                     (if lights_state s = ''Off'' then turn_on_lights port s else s)
                   else if current_temp' > temp_max s then
                     (if lights_state s = ''On'' then turn_off_lights port s else s)
                   else s)
         in if door_relay_state s1 = ''On'' then
              (if now - door_open_time s1 > 10 then
                 log_event ''Auto-closed door after timeout'' (turn_off_door_relay port2 s1)
               else s1)
            else s1)
      else s)"

text \<open>
  \<open>t_read\<close> is the reading of \<^verbatim>\<open>time.time()\<close> from which the elapsed time is computed,
  \<open>t_store\<close> the later one stored in \<^verbatim>\<open>last_energy_update\<close>.
\<close>

definition monitor_energy_usage_body :: "real \<Rightarrow> real \<Rightarrow> bas \<Rightarrow> bas" where
  "monitor_energy_usage_body t_read t_store s =
     (let lights_factor = (if lights_state s = ''On'' then 1.0 else nearest_float 0.2);
          door_factor = (if door_relay_state s = ''On'' then 0.5 else 0.0);
          time_diff = fdiv (fsub t_read (last_energy_update s)) 3600;
          energy_increment =
            fmul (fmul (fadd lights_factor door_factor) time_diff) (nearest_float 0.1);
          current_usage = energy_usage s
      in s\<lparr>energy_usage := py_round (fadd current_usage energy_increment) 2,
           last_energy_update := t_store\<rparr>)"

section \<open>The remaining commands and the start of the controller\<close>

text \<open>
  \<^verbatim>\<open>toggle_scheduled_mode\<close> is the command of the check box bound to \<^verbatim>\<open>scheduled_mode\<close>.
  In \<^verbatim>\<open>update_schedule\<close>, whether \<^verbatim>\<open>datetime.strptime(t, "%H:%M")\<close> accepts a text is the
  parameter \<open>strptime_ok\<close>.
\<close>

definition toggle_scheduled_mode :: "bas \<Rightarrow> bas" where
  "toggle_scheduled_mode s =
     (if scheduled_mode s then
        log_event ''Scheduled mode enabled'' (s\<lparr>current_mode := ''Schedule''\<rparr>)
      else
        log_event ''Scheduled mode disabled'' (s\<lparr>current_mode := ''Manual''\<rparr>))"

definition update_schedule :: "(string \<Rightarrow> bool) \<Rightarrow> bas \<Rightarrow> bas \<times> messagebox" where
  "update_schedule strptime_ok s =
     (let on_time = lights_on_time s; off_time = lights_off_time s in
      if strptime_ok on_time \<and> strptime_ok off_time then
        (let text = ''Schedule updated: Lights ON at '' @ on_time @ '', OFF at '' @ off_time
         in (log_event text s, showinfo ''Success'' text))
      else
        (s, showerror ''Error'' ''Invalid time format. Use HH:MM (24-hour format).''))"

text \<open>
  \<^verbatim>\<open>all_systems_on\<close> and \<^verbatim>\<open>all_systems_off\<close>: the functions they call catch every
  exception, so their own \<^verbatim>\<open>except\<close> branch is not reached.
\<close>

definition all_systems_on :: "light_serial \<Rightarrow> door_serial \<Rightarrow> real \<Rightarrow> bas \<Rightarrow> bas \<times> messagebox" where
  "all_systems_on port port2 now s =
     (turn_on_door_relay port2 now (turn_on_lights port (log_event ''Activating all systems...'' s)),
      showinfo ''Success'' ''All systems activated'')"

definition all_systems_off :: "light_serial \<Rightarrow> door_serial \<Rightarrow> bas \<Rightarrow> bas \<times> messagebox" where
  "all_systems_off port port2 s =
     (turn_off_door_relay port2 (turn_off_lights port (log_event ''Deactivating all systems...'' s)),
      showinfo ''Success'' ''All systems deactivated'')"

text \<open>
  One pass of \<^verbatim>\<open>monitor_schedule\<close>; \<open>current_time\<close> is the wall clock as \<^verbatim>\<open>%H:%M\<close>, and
  the two ports are those of the two possible calls.
\<close>

definition monitor_schedule_body :: "light_serial \<Rightarrow> light_serial \<Rightarrow> string \<Rightarrow> bas \<Rightarrow> bas" where
  "monitor_schedule_body port port' current_time s =
     (if scheduled_mode s then
        (let s1 = (if current_time = lights_on_time s then
                     log_event ''Scheduled light activation'' (turn_on_lights port s)
                   else s)
         in if current_time = lights_off_time s1 then
              log_event ''Scheduled light deactivation'' (turn_off_lights port' s1)
            else s1)
      else s)"

text \<open>
  \<^verbatim>\<open>try_connect_devices\<close>: \<open>probe_ok\<close> says that both ports opened and took their frame.
  The status label shows the same text either way and is not part of the state.
\<close>

definition try_connect_devices :: "bool \<Rightarrow> bas \<Rightarrow> bas" where
  "try_connect_devices probe_ok s = (if probe_ok then s\<lparr>is_connected := True\<rparr>
                                     else s\<lparr>is_connected := False\<rparr>)"

text \<open>
  The states of a running controller, each function taken as one step. \<open>starting\<close> are
  the states between \<^verbatim>\<open>start_all_monitoring\<close> and \<^verbatim>\<open>try_connect_devices\<close> in \<^verbatim>\<open>__init__\<close>:
  the window is not yet shown, and the three monitors that were started may already
  run. \<open>reachable\<close> are the states from \<^verbatim>\<open>try_connect_devices\<close> on: any command of the
  window, any edit of an entry field bound to a variable, any pass of a monitor.
\<close>

inductive starting :: "bas \<Rightarrow> bool" where
  started:
    "starting (snd (start_all_monitoring (log_event ''System initialized'' (initial t0))))"
| starting_temperature:
    "starting s \<Longrightarrow>
     starting (monitor_temperature_body float_str port fluctuation humidity_change s)"
| starting_schedule:
    "starting s \<Longrightarrow> starting (monitor_schedule_body port port' current_time s)"
| starting_energy:
    "starting s \<Longrightarrow> starting (monitor_energy_usage_body t_read t_store s)"

inductive reachable :: "bas \<Rightarrow> bool" where
  connected: "starting s \<Longrightarrow> reachable (try_connect_devices probe_ok s)"
| edit_temp_min: "reachable s \<Longrightarrow> reachable (s\<lparr>temp_min := x\<rparr>)"
| edit_temp_max: "reachable s \<Longrightarrow> reachable (s\<lparr>temp_max := x\<rparr>)"
| edit_lights_on_time: "reachable s \<Longrightarrow> reachable (s\<lparr>lights_on_time := t\<rparr>)"
| edit_lights_off_time: "reachable s \<Longrightarrow> reachable (s\<lparr>lights_off_time := t\<rparr>)"
| check_box: "reachable s \<Longrightarrow> reachable (toggle_scheduled_mode (s\<lparr>scheduled_mode := b\<rparr>))"
| schedule_button: "reachable s \<Longrightarrow> reachable (fst (update_schedule strptime_ok s))"
| range_button: "reachable s \<Longrightarrow> reachable (fst (set_temperature_range float_str s))"
| mode_button: "reachable s \<Longrightarrow> reachable (change_mode port mode s)"
| macro_button: "reachable s \<Longrightarrow> reachable (fst (apply_macro port port2 now macro_name s))"
| lights_on_button: "reachable s \<Longrightarrow> reachable (turn_on_lights port s)"
| lights_off_button: "reachable s \<Longrightarrow> reachable (turn_off_lights port s)"
| door_open_button: "reachable s \<Longrightarrow> reachable (turn_on_door_relay port2 now s)"
| door_close_button: "reachable s \<Longrightarrow> reachable (turn_off_door_relay port2 s)"
| all_on_button: "reachable s \<Longrightarrow> reachable (fst (all_systems_on port port2 now s))"
| all_off_button: "reachable s \<Longrightarrow> reachable (fst (all_systems_off port port2 s))"
| temperature_pass:
    "reachable s \<Longrightarrow>
     reachable (monitor_temperature_body float_str port fluctuation humidity_change s)"
| schedule_pass: "reachable s \<Longrightarrow> reachable (monitor_schedule_body port port' current_time s)"
| auto_mode_pass: "reachable s \<Longrightarrow> reachable (auto_mode_monitor_body port port2 now s)"
| energy_pass: "reachable s \<Longrightarrow> reachable (monitor_energy_usage_body t_read t_store s)"

section \<open>Auxiliary definitions\<close>

text \<open>
  The exception, if any, that the lighting port raises while the frames \<open>commands\<close> are
  sent in order; it does not depend on the controller state.
\<close>

fun port_error :: "light_serial \<Rightarrow> string list \<Rightarrow> exn option" where
  "port_error (Inl e) commands = Some e"
| "port_error (Inr ser) [] = None"
| "port_error (Inr ser) (command # commands) =
     (case ser command of Inl e \<Rightarrow> Some e | Inr response \<Rightarrow> port_error (Inr ser) commands)"

text \<open>
  \<^verbatim>\<open>is_connected\<close> is assigned in \<^verbatim>\<open>__init__\<close> and \<^verbatim>\<open>try_connect_devices\<close> only, before
  the first command, and the two relay states are written by the four actuation
  functions only, after their connection test. So a controller that is not connected
  has never switched a relay: both still have their initial value.
\<close>

definition offline_relays_off :: "bas \<Rightarrow> bool" where
  "offline_relays_off s =
     (is_connected s \<or> (lights_state s = ''Off'' \<and> door_relay_state s = ''Off''))"

text \<open>
  The effects of \<^verbatim>\<open>change_mode(mode)\<close> are in place: the mode, the two flags and, for
  Energy Saving, the range and the lights.
\<close>

definition mode_in_effect :: "string \<Rightarrow> bas \<Rightarrow> bool" where
  "mode_in_effect mode s =
     (current_mode s = mode \<and>
      (if mode = ''Auto'' then auto_mode s \<and> \<not> scheduled_mode s
       else if mode = ''Schedule'' then \<not> auto_mode s \<and> scheduled_mode s
       else if mode = ''Energy Saving'' then
         auto_mode s \<and> scheduled_mode s \<and> temp_min s = 18 \<and> temp_max s = 23 \<and>
         lights_state s = ''Off''
       else \<not> auto_mode s \<and> \<not> scheduled_mode s))"

section \<open>Frame lemmas\<close>

lemma send_commands_log:
  "\<exists>es. snd (send_commands ser commands s) = s\<lparr>log_text := log_text s @ es\<rparr>"
proof (induction commands arbitrary: s)
  case Nil
  show ?case by (rule exI [of _ "[]"]) simp
next
  case (Cons c cs)
  show ?case
  proof (cases "ser c")
    case (Inl e)
    then show ?thesis by (intro exI [of _ "[]"]) simp
  next
    case (Inr r)
    let ?m = "''Light command response: '' @ r"
    from Cons.IH [of "log_event ?m s"] obtain es where
      "snd (send_commands ser cs (log_event ?m s)) =
         (log_event ?m s)\<lparr>log_text := log_text (log_event ?m s) @ es\<rparr>" by blast
    with Inr have "snd (send_commands ser (c # cs) s) = s\<lparr>log_text := log_text s @ (?m # es)\<rparr>"
      by (simp add: log_event_def)
    then show ?thesis by (rule exI)
  qed
qed

lemma send_commands_error:
  "fst (send_commands ser commands s) = port_error (Inr ser) commands"
  by (induction commands arbitrary: s) (simp_all split: sum.splits)

lemma turn_on_lights_frame:
  "\<exists>es. turn_on_lights port s =
     s\<lparr>lights_state := (if is_connected s then ''On'' else lights_state s),
       log_text := log_text s @ es\<rparr>"
  (is "\<exists>es. ?P es")
proof (cases "is_connected s")
  case False
  show ?thesis
  proof (rule exI)
    show "?P [''System not connected. Unable to turn on lights.'']"
      using False by (simp add: turn_on_lights_def log_event_def)
  qed
next
  case True
  show ?thesis
  proof (cases port)
    case (Inl e)
    show ?thesis
    proof (rule exI)
      show "?P [''Error turning on lights: '' @ e]"
        using True Inl by (simp add: turn_on_lights_def log_event_def)
    qed
  next
    case (Inr ser)
    obtain r s1 where r: "send_commands ser commands_to_turn_on_lights s = (r, s1)"
      by (cases "send_commands ser commands_to_turn_on_lights s")
    obtain es where s1: "s1 = s\<lparr>log_text := log_text s @ es\<rparr>"
      using send_commands_log [of ser commands_to_turn_on_lights s] r by auto
    show ?thesis
    proof (cases r)
      case None
      show ?thesis
      proof (rule exI)
        show "?P (es @ [''Lights turned ON''])"
          using True Inr r s1 None by (simp add: turn_on_lights_def log_event_def)
      qed
    next
      case (Some e)
      show ?thesis
      proof (rule exI)
        show "?P (es @ [''Error turning on lights: '' @ e])"
          using True Inr r s1 Some by (simp add: turn_on_lights_def log_event_def)
      qed
    qed
  qed
qed

lemma turn_off_lights_frame:
  "\<exists>es. turn_off_lights port s =
     s\<lparr>lights_state := (if is_connected s then ''Off'' else lights_state s),
       log_text := log_text s @ es\<rparr>"
  (is "\<exists>es. ?P es")
proof (cases "is_connected s")
  case False
  show ?thesis
  proof (rule exI)
    show "?P [''System not connected. Unable to turn off lights.'']"
      using False by (simp add: turn_off_lights_def log_event_def)
  qed
next
  case True
  show ?thesis
  proof (cases port)
    case (Inl e)
    show ?thesis
    proof (rule exI)
      show "?P [''Error turning off lights: '' @ e]"
        using True Inl by (simp add: turn_off_lights_def log_event_def)
    qed
  next
    case (Inr ser)
    obtain r s1 where r: "send_commands ser commands_to_turn_off_lights s = (r, s1)"
      by (cases "send_commands ser commands_to_turn_off_lights s")
    obtain es where s1: "s1 = s\<lparr>log_text := log_text s @ es\<rparr>"
      using send_commands_log [of ser commands_to_turn_off_lights s] r by auto
    show ?thesis
    proof (cases r)
      case None
      show ?thesis
      proof (rule exI)
        show "?P (es @ [''Lights turned OFF''])"
          using True Inr r s1 None by (simp add: turn_off_lights_def log_event_def)
      qed
    next
      case (Some e)
      show ?thesis
      proof (rule exI)
        show "?P (es @ [''Error turning off lights: '' @ e])"
          using True Inr r s1 Some by (simp add: turn_off_lights_def log_event_def)
      qed
    qed
  qed
qed

lemma turn_on_door_relay_frame:
  "\<exists>es. turn_on_door_relay port2 now s =
     s\<lparr>door_relay_state := (if is_connected s then ''On'' else door_relay_state s),
       door_open_time := (if is_connected s \<and> \<not> isl port2 then now else door_open_time s),
       log_text := log_text s @ es\<rparr>"
  (is "\<exists>es. ?P es")
proof (cases "is_connected s")
  case False
  show ?thesis
  proof (rule exI)
    show "?P [''System not connected. Unable to open door.'']"
      using False by (simp add: turn_on_door_relay_def log_event_def)
  qed
next
  case True
  show ?thesis
  proof (cases port2)
    case (Inl e)
    show ?thesis
    proof (rule exI)
      show "?P [''Error opening door: '' @ e]"
        using True Inl by (simp add: turn_on_door_relay_def log_event_def)
    qed
  next
    case (Inr response)
    show ?thesis
    proof (rule exI)
      show "?P [''Door relay command sent'', ''Door opened'']"
        using True Inr by (simp add: turn_on_door_relay_def log_event_def)
    qed
  qed
qed

lemma turn_off_door_relay_frame:
  "\<exists>es. turn_off_door_relay port2 s =
     s\<lparr>door_relay_state := (if is_connected s then ''Off'' else door_relay_state s),
       log_text := log_text s @ es\<rparr>"
  (is "\<exists>es. ?P es")
proof (cases "is_connected s")
  case False
  show ?thesis
  proof (rule exI)
    show "?P [''System not connected. Unable to close door.'']"
      using False by (simp add: turn_off_door_relay_def log_event_def)
  qed
next
  case True
  show ?thesis
  proof (cases port2)
    case (Inl e)
    show ?thesis
    proof (rule exI)
      show "?P [''Error closing door: '' @ e]"
        using True Inl by (simp add: turn_off_door_relay_def log_event_def)
    qed
  next
    case (Inr response)
    show ?thesis
    proof (rule exI)
      show "?P [''Door relay command sent'', ''Door closed'']"
        using True Inr by (simp add: turn_off_door_relay_def log_event_def)
    qed
  qed
qed

lemma turn_on_lights_fields [simp]:
  shows "lights_state (turn_on_lights port s) = (if is_connected s then ''On'' else lights_state s)"
    and "door_relay_state (turn_on_lights port s) = door_relay_state s"
    and "door_open_time (turn_on_lights port s) = door_open_time s"
    and "is_connected (turn_on_lights port s) = is_connected s"
    and "current_temp (turn_on_lights port s) = current_temp s"
    and "temp_min (turn_on_lights port s) = temp_min s"
    and "temp_max (turn_on_lights port s) = temp_max s"
    and "auto_mode (turn_on_lights port s) = auto_mode s"
    and "scheduled_mode (turn_on_lights port s) = scheduled_mode s"
    and "current_mode (turn_on_lights port s) = current_mode s"
proof -
  obtain es where "turn_on_lights port s =
     s\<lparr>lights_state := (if is_connected s then ''On'' else lights_state s),
       log_text := log_text s @ es\<rparr>"
    using turn_on_lights_frame [of port s] by (rule exE)
  then show
    "lights_state (turn_on_lights port s) = (if is_connected s then ''On'' else lights_state s)"
    "door_relay_state (turn_on_lights port s) = door_relay_state s"
    "door_open_time (turn_on_lights port s) = door_open_time s"
    "is_connected (turn_on_lights port s) = is_connected s"
    "current_temp (turn_on_lights port s) = current_temp s"
    "temp_min (turn_on_lights port s) = temp_min s"
    "temp_max (turn_on_lights port s) = temp_max s"
    "auto_mode (turn_on_lights port s) = auto_mode s"
    "scheduled_mode (turn_on_lights port s) = scheduled_mode s"
    "current_mode (turn_on_lights port s) = current_mode s"
    by simp_all
qed

lemma turn_off_lights_fields [simp]:
  shows "lights_state (turn_off_lights port s) = (if is_connected s then ''Off'' else lights_state s)"
    and "door_relay_state (turn_off_lights port s) = door_relay_state s"
    and "door_open_time (turn_off_lights port s) = door_open_time s"
    and "is_connected (turn_off_lights port s) = is_connected s"
    and "current_temp (turn_off_lights port s) = current_temp s"
    and "temp_min (turn_off_lights port s) = temp_min s"
    and "temp_max (turn_off_lights port s) = temp_max s"
    and "auto_mode (turn_off_lights port s) = auto_mode s"
    and "scheduled_mode (turn_off_lights port s) = scheduled_mode s"
    and "current_mode (turn_off_lights port s) = current_mode s"
proof -
  obtain es where "turn_off_lights port s =
     s\<lparr>lights_state := (if is_connected s then ''Off'' else lights_state s),
       log_text := log_text s @ es\<rparr>"
    using turn_off_lights_frame [of port s] by (rule exE)
  then show
    "lights_state (turn_off_lights port s) = (if is_connected s then ''Off'' else lights_state s)"
    "door_relay_state (turn_off_lights port s) = door_relay_state s"
    "door_open_time (turn_off_lights port s) = door_open_time s"
    "is_connected (turn_off_lights port s) = is_connected s"
    "current_temp (turn_off_lights port s) = current_temp s"
    "temp_min (turn_off_lights port s) = temp_min s"
    "temp_max (turn_off_lights port s) = temp_max s"
    "auto_mode (turn_off_lights port s) = auto_mode s"
    "scheduled_mode (turn_off_lights port s) = scheduled_mode s"
    "current_mode (turn_off_lights port s) = current_mode s"
    by simp_all
qed

lemma turn_on_door_relay_fields [simp]:
  shows "door_relay_state (turn_on_door_relay port2 now s) =
           (if is_connected s then ''On'' else door_relay_state s)"
    and "door_open_time (turn_on_door_relay port2 now s) =
           (if is_connected s \<and> \<not> isl port2 then now else door_open_time s)"
    and "lights_state (turn_on_door_relay port2 now s) = lights_state s"
    and "is_connected (turn_on_door_relay port2 now s) = is_connected s"
    and "current_temp (turn_on_door_relay port2 now s) = current_temp s"
proof -
  obtain es where "turn_on_door_relay port2 now s =
     s\<lparr>door_relay_state := (if is_connected s then ''On'' else door_relay_state s),
       door_open_time := (if is_connected s \<and> \<not> isl port2 then now else door_open_time s),
       log_text := log_text s @ es\<rparr>"
    using turn_on_door_relay_frame [of port2 now s] by (rule exE)
  then show
    "door_relay_state (turn_on_door_relay port2 now s) =
           (if is_connected s then ''On'' else door_relay_state s)"
    "door_open_time (turn_on_door_relay port2 now s) =
           (if is_connected s \<and> \<not> isl port2 then now else door_open_time s)"
    "lights_state (turn_on_door_relay port2 now s) = lights_state s"
    "is_connected (turn_on_door_relay port2 now s) = is_connected s"
    "current_temp (turn_on_door_relay port2 now s) = current_temp s"
    by simp_all
qed

lemma turn_off_door_relay_fields [simp]:
  shows "door_relay_state (turn_off_door_relay port2 s) =
           (if is_connected s then ''Off'' else door_relay_state s)"
    and "door_open_time (turn_off_door_relay port2 s) = door_open_time s"
    and "lights_state (turn_off_door_relay port2 s) = lights_state s"
    and "is_connected (turn_off_door_relay port2 s) = is_connected s"
    and "current_temp (turn_off_door_relay port2 s) = current_temp s"
proof -
  obtain es where "turn_off_door_relay port2 s =
     s\<lparr>door_relay_state := (if is_connected s then ''Off'' else door_relay_state s),
       log_text := log_text s @ es\<rparr>"
    using turn_off_door_relay_frame [of port2 s] by (rule exE)
  then show
    "door_relay_state (turn_off_door_relay port2 s) =
           (if is_connected s then ''Off'' else door_relay_state s)"
    "door_open_time (turn_off_door_relay port2 s) = door_open_time s"
    "lights_state (turn_off_door_relay port2 s) = lights_state s"
    "is_connected (turn_off_door_relay port2 s) = is_connected s"
    "current_temp (turn_off_door_relay port2 s) = current_temp s"
    by simp_all
qed

lemma log_event_fields [simp]:
  shows "lights_state (log_event m s) = lights_state s"
    and "door_relay_state (log_event m s) = door_relay_state s"
    and "door_open_time (log_event m s) = door_open_time s"
    and "is_connected (log_event m s) = is_connected s"
    and "current_temp (log_event m s) = current_temp s"
    and "temp_min (log_event m s) = temp_min s"
    and "temp_max (log_event m s) = temp_max s"
    and "auto_mode (log_event m s) = auto_mode s"
    and "scheduled_mode (log_event m s) = scheduled_mode s"
    and "current_mode (log_event m s) = current_mode s"
    and "log_text (log_event m s) = log_text s @ [m]"
  by (simp_all add: log_event_def)

section \<open>The float model\<close>

text \<open>
  \<open>binade x\<close> is the power of two at or below \<open>\<bar>x\<bar>\<close>, and \<open>nearest_float x\<close>, a multiple
  of the spacing of the doubles around \<open>x\<close>, is within half that spacing of \<open>x\<close>.
\<close>

lemma power_two_le_of_int:
  assumes "2 ^ k \<le> (n::int)"
  shows "(2::real) ^ k \<le> real_of_int n"
proof -
  have "real_of_int (2 ^ k) \<le> real_of_int n"
    using assms by (simp only: of_int_le_iff)
  then show ?thesis by simp
qed

lemma of_int_le_power_two:
  assumes "(n::int) \<le> 2 ^ k"
  shows "real_of_int n \<le> (2::real) ^ k"
proof -
  have "real_of_int n \<le> real_of_int (2 ^ k)"
    using assms by (simp only: of_int_le_iff)
  then show ?thesis by simp
qed

lemma binade_bounds:
  assumes "x \<noteq> 0"
  shows "two_to (binade x) \<le> \<bar>x\<bar> \<and> \<bar>x\<bar> < two_to (binade x + 1)"
proof (cases "1 \<le> \<bar>x\<bar>")
  case True
  let ?n = "\<lfloor>\<bar>x\<bar>\<rfloor>"
  have n: "0 < ?n" using True by simp
  have b: "2 ^ nat (bitlen ?n - 1) \<le> ?n" "?n < 2 ^ nat (bitlen ?n)"
    using bitlen_bounds [OF n] by simp_all
  have k: "1 \<le> bitlen ?n" using n by (simp add: bitlen_alt_def)
  have e: "binade x = bitlen ?n - 1" using True by (simp add: binade_def)
  have "(2::real) ^ nat (bitlen ?n - 1) \<le> real_of_int ?n"
    using b(1) by (rule power_two_le_of_int)
  also have "\<dots> \<le> \<bar>x\<bar>" by (rule of_int_floor_le)
  finally have lo: "two_to (binade x) \<le> \<bar>x\<bar>"
    using k e by (simp add: two_to_def)
  have "?n + 1 \<le> 2 ^ nat (bitlen ?n)" using b(2) by simp
  then have "real_of_int (?n + 1) \<le> (2::real) ^ nat (bitlen ?n)"
    by (rule of_int_le_power_two)
  moreover have "\<bar>x\<bar> < real_of_int (?n + 1)" by linarith
  ultimately have "\<bar>x\<bar> < (2::real) ^ nat (bitlen ?n)" by linarith
  then have hi: "\<bar>x\<bar> < two_to (binade x + 1)"
    using k e by (simp add: two_to_def)
  from lo hi show ?thesis ..
next
  case False
  let ?y = "1 / \<bar>x\<bar>"
  let ?m = "\<lceil>?y\<rceil> - 1"
  have x: "0 < \<bar>x\<bar>" "\<bar>x\<bar> < 1" using assms False by simp_all
  have y: "1 < ?y" using x by simp
  then have m: "0 < ?m" by linarith
  have my: "real_of_int ?m < ?y" "?y \<le> real_of_int (?m + 1)" by linarith+
  have b: "2 ^ nat (bitlen ?m - 1) \<le> ?m" "?m < 2 ^ nat (bitlen ?m)"
    using bitlen_bounds [OF m] by simp_all
  have k: "1 \<le> bitlen ?m" using m by (simp add: bitlen_alt_def)
  have e: "binade x = - bitlen ?m" using False by (simp add: binade_def)
  have "?m + 1 \<le> 2 ^ nat (bitlen ?m)" using b(2) by simp
  then have "real_of_int (?m + 1) \<le> (2::real) ^ nat (bitlen ?m)"
    by (rule of_int_le_power_two)
  with my(2) have "?y \<le> (2::real) ^ nat (bitlen ?m)" by linarith
  then have "1 \<le> (2::real) ^ nat (bitlen ?m) * \<bar>x\<bar>"
    using x(1) by (simp add: field_simps)
  then have "1 / (2::real) ^ nat (bitlen ?m) \<le> \<bar>x\<bar>"
    by (simp add: field_simps)
  then have lo: "two_to (binade x) \<le> \<bar>x\<bar>"
    using k e by (simp add: two_to_def)
  have "(2::real) ^ nat (bitlen ?m - 1) \<le> real_of_int ?m"
    using b(1) by (rule power_two_le_of_int)
  with my(1) have "(2::real) ^ nat (bitlen ?m - 1) < ?y" by linarith
  then have "(2::real) ^ nat (bitlen ?m - 1) * \<bar>x\<bar> < 1"
    using x(1) by (simp add: field_simps)
  then have lt: "\<bar>x\<bar> < 1 / (2::real) ^ nat (bitlen ?m - 1)"
    by (simp add: field_simps)
  have hi: "\<bar>x\<bar> < two_to (binade x + 1)"
  proof (cases "bitlen ?m = 1")
    case True
    with e x(2) show ?thesis by (simp add: two_to_def)
  next
    case False
    with k have "1 < bitlen ?m" by simp
    then have "two_to (binade x + 1) = 1 / 2 ^ nat (bitlen ?m - 1)"
      using e by (simp add: two_to_def)
    with lt show ?thesis by simp
  qed
  from lo hi show ?thesis ..
qed


lemma round_half_even_near: "\<bar>real_of_int (round_half_even y) - y\<bar> \<le> 1 / 2"
proof -
  have "real_of_int \<lfloor>y\<rfloor> \<le> y" "y < real_of_int \<lfloor>y\<rfloor> + 1" by linarith+
  then show ?thesis by (simp add: round_half_even_def Let_def)
qed

lemma two_to_positive: "0 < two_to k"
  by (simp add: two_to_def)

lemma nearest_float_near:
  "\<bar>nearest_float x - x\<bar> \<le> two_to (max (binade x) (- 1022) - 52) / 2"
proof (cases "x = 0")
  case True
  then show ?thesis using two_to_positive [of "max (binade 0) (- 1022) - 52"]
    by (simp add: nearest_float_def)
next
  case False
  let ?q = "two_to (max (binade x) (- 1022) - 52)"
  have q: "0 < ?q" by (rule two_to_positive)
  have "nearest_float x - x = (real_of_int (round_half_even (x / ?q)) - x / ?q) * ?q"
    using False q by (simp add: nearest_float_def Let_def field_simps)
  then have "\<bar>nearest_float x - x\<bar> = \<bar>real_of_int (round_half_even (x / ?q)) - x / ?q\<bar> * ?q"
    using q by (simp add: abs_mult)
  also have "\<dots> \<le> 1 / 2 * ?q"
    using q round_half_even_near [of "x / ?q"] by (intro mult_right_mono) simp_all
  finally show ?thesis by simp
qed

section \<open>Float arithmetic at the values used below\<close>

lemma float_sum_below_minimum:
  shows "fadd (nearest_float (101 / 5)) (nearest_float (- (11 / 50))) < 20"
    and "py_round (fadd (nearest_float (101 / 5)) (nearest_float (- (11 / 50)))) (Suc 0) = 20"
  by code_simp+

lemma float_unchanged:
  shows "fadd 22 0 = 22" and "fadd 45 0 = 45"
    and "py_round 22 (Suc 0) = 22" and "py_round 45 (Suc 0) = 45"
  by code_simp+

lemma float_sums:
  shows "fadd 20 (- (1 / 4)) = 79 / 4"
    and "fadd 25 (1 / 4) = 101 / 4"
    and "fadd 22 (1 / 8) = 177 / 8"
  by code_simp+

lemma float_roundings:
  shows "py_round (177 / 8) (Suc 0) = nearest_float (221 / 10)"
  by code_simp+

lemma float_increments:
  shows "py_round (fadd 0 (fmul (fmul (fadd 1 (1 / 2))
           (fdiv (fsub 1700000060 1700000000) 3600)) (nearest_float (1 / 10)))) 2 = 0"
    and "py_round (fadd 0 (fmul (fmul (fadd 1 (1 / 2))
           (fdiv (fsub 1700000120 1700000060) 3600)) (nearest_float (1 / 10)))) 2 = 0"
  by code_simp+

lemma float_increments_60:
  shows "py_round (fadd 0 (fmul (fmul (fadd 1 (1 / 2)) (fdiv 60 3600))
           (nearest_float (1 / 10)))) 2 = 0"
    and "py_round (fadd 0 (fmul (fmul (fadd 1 0) (fdiv 60 3600))
           (nearest_float (1 / 10)))) 2 = 0"
    and "py_round (fadd 0 (fmul (fmul (fadd (nearest_float (1 / 5)) (1 / 2)) (fdiv 60 3600))
           (nearest_float (1 / 10)))) 2 = 0"
    and "py_round (fadd 0 (fmul (fmul (fadd (nearest_float (1 / 5)) 0) (fdiv 60 3600))
           (nearest_float (1 / 10)))) 2 = 0"
  by code_simp+

section \<open>Actuation while not connected, and on a transport error\<close>

text \<open>
  C10. While \<^verbatim>\<open>is_connected\<close> is false, each of the four actuation functions returns the
  state it was given with one entry added to the log: the relay states and
  \<^verbatim>\<open>door_open_time\<close> are as before, whatever the serial port would have done.
\<close>

theorem disconnected_actuation_only_logs:
  assumes "\<not> is_connected s"
  shows "turn_on_lights port s =
           s\<lparr>log_text := log_text s @ [''System not connected. Unable to turn on lights.'']\<rparr> \<and>
         turn_off_lights port s =
           s\<lparr>log_text := log_text s @ [''System not connected. Unable to turn off lights.'']\<rparr> \<and>
         turn_on_door_relay port2 now s =
           s\<lparr>log_text := log_text s @ [''System not connected. Unable to open door.'']\<rparr> \<and>
         turn_off_door_relay port2 s =
           s\<lparr>log_text := log_text s @ [''System not connected. Unable to close door.'']\<rparr>"
  using assms
  by (simp add: turn_on_lights_def turn_off_lights_def turn_on_door_relay_def
      turn_off_door_relay_def log_event_def)

theorem disconnected_actuation_only_logs_witness:
  "\<not> is_connected (initial 0) \<and>
   turn_on_lights (Inr (\<lambda>frame. Inr ''OK'')) (initial 0) =
     (initial 0)\<lparr>log_text := [''System not connected. Unable to turn on lights.'']\<rparr> \<and>
   turn_off_lights (Inr (\<lambda>frame. Inr ''OK'')) (initial 0) =
     (initial 0)\<lparr>log_text := [''System not connected. Unable to turn off lights.'']\<rparr> \<and>
   turn_on_door_relay (Inr ''OK'') 5 (initial 0) =
     (initial 0)\<lparr>log_text := [''System not connected. Unable to open door.'']\<rparr> \<and>
   turn_off_door_relay (Inr ''OK'') (initial 0) =
     (initial 0)\<lparr>log_text := [''System not connected. Unable to close door.'']\<rparr>"
  using disconnected_actuation_only_logs
    [of "initial 0" "Inr (\<lambda>frame. Inr ''OK'')" "Inr ''OK''" 5]
  by (simp add: initial_def)

lemma send_commands_raises:
  assumes "port_error (Inr ser) commands = Some e"
  shows "\<exists>es. send_commands ser commands s = (Some e, s\<lparr>log_text := log_text s @ es\<rparr>)"
proof -
  obtain es where "snd (send_commands ser commands s) = s\<lparr>log_text := log_text s @ es\<rparr>"
    using send_commands_log [of ser commands s] by (rule exE)
  moreover have "fst (send_commands ser commands s) = Some e"
    using assms by (simp add: send_commands_error)
  ultimately have "send_commands ser commands s = (Some e, s\<lparr>log_text := log_text s @ es\<rparr>)"
    by (simp add: prod_eq_iff)
  then show ?thesis by (intro exI)
qed

lemma turn_on_lights_raises:
  assumes "is_connected s" and "port_error port commands_to_turn_on_lights = Some e"
  shows "\<exists>es. turn_on_lights port s =
           s\<lparr>lights_state := ''On'',
             log_text := log_text s @ es @ [''Error turning on lights: '' @ e]\<rparr>"
    (is "\<exists>es. ?P es")
proof (cases port)
  case (Inl e')
  show ?thesis
  proof (rule exI)
    show "?P []" using assms Inl by (simp add: turn_on_lights_def log_event_def)
  qed
next
  case (Inr ser)
  obtain es where
    "send_commands ser commands_to_turn_on_lights s = (Some e, s\<lparr>log_text := log_text s @ es\<rparr>)"
    using send_commands_raises [of ser commands_to_turn_on_lights e s] assms(2) Inr by auto
  then have "?P es"
    using assms(1) Inr by (simp add: turn_on_lights_def log_event_def)
  then show ?thesis by (intro exI)
qed

lemma turn_off_lights_raises:
  assumes "is_connected s" and "port_error port commands_to_turn_off_lights = Some e"
  shows "\<exists>es. turn_off_lights port s =
           s\<lparr>lights_state := ''Off'',
             log_text := log_text s @ es @ [''Error turning off lights: '' @ e]\<rparr>"
    (is "\<exists>es. ?P es")
proof (cases port)
  case (Inl e')
  show ?thesis
  proof (rule exI)
    show "?P []" using assms Inl by (simp add: turn_off_lights_def log_event_def)
  qed
next
  case (Inr ser)
  obtain es where
    "send_commands ser commands_to_turn_off_lights s = (Some e, s\<lparr>log_text := log_text s @ es\<rparr>)"
    using send_commands_raises [of ser commands_to_turn_off_lights e s] assms(2) Inr by auto
  then have "?P es"
    using assms(1) Inr by (simp add: turn_off_lights_def log_event_def)
  then show ?thesis by (intro exI)
qed

text \<open>
  C2. The controller is connected, so the serial port is used. When the port raises \<open>e\<close>
  (on opening, or on one of the four frames, after the replies to the earlier frames
  were logged), \<^verbatim>\<open>turn_on_lights\<close> ends with \<^verbatim>\<open>lights_state\<close> at On and the entry
  \<^verbatim>\<open>Error turning on lights: e\<close> as the last of the log; likewise \<^verbatim>\<open>turn_off_lights\<close>
  with Off. When the door port raises \<open>e\<close>, \<^verbatim>\<open>turn_on_door_relay\<close> ends with
  \<^verbatim>\<open>door_relay_state\<close> at On and \<^verbatim>\<open>turn_off_door_relay\<close> with Off, each with its error
  entry added to the log.
\<close>

theorem transport_error_still_updates_flag:
  assumes "is_connected s"
  shows "(port_error port commands_to_turn_on_lights = Some e \<longrightarrow>
            lights_state (turn_on_lights port s) = ''On'' \<and>
            (\<exists>es. log_text (turn_on_lights port s) =
               log_text s @ es @ [''Error turning on lights: '' @ e])) \<and>
         (port_error port commands_to_turn_off_lights = Some e \<longrightarrow>
            lights_state (turn_off_lights port s) = ''Off'' \<and>
            (\<exists>es. log_text (turn_off_lights port s) =
               log_text s @ es @ [''Error turning off lights: '' @ e])) \<and>
         door_relay_state (turn_on_door_relay (Inl e) now s) = ''On'' \<and>
         log_text (turn_on_door_relay (Inl e) now s) =
           log_text s @ [''Error opening door: '' @ e] \<and>
         door_relay_state (turn_off_door_relay (Inl e) s) = ''Off'' \<and>
         log_text (turn_off_door_relay (Inl e) s) =
           log_text s @ [''Error closing door: '' @ e]"
proof (intro conjI impI)
  assume "port_error port commands_to_turn_on_lights = Some e"
  then obtain es where on: "turn_on_lights port s =
      s\<lparr>lights_state := ''On'', log_text := log_text s @ es @ [''Error turning on lights: '' @ e]\<rparr>"
    using turn_on_lights_raises [OF assms] by blast
  show "lights_state (turn_on_lights port s) = ''On''"
    using assms by simp
  have "log_text (turn_on_lights port s) = log_text s @ es @ [''Error turning on lights: '' @ e]"
    by (simp add: on)
  then show "\<exists>es. log_text (turn_on_lights port s) =
      log_text s @ es @ [''Error turning on lights: '' @ e]"
    by (intro exI)
next
  assume "port_error port commands_to_turn_off_lights = Some e"
  then obtain es where off: "turn_off_lights port s =
      s\<lparr>lights_state := ''Off'', log_text := log_text s @ es @ [''Error turning off lights: '' @ e]\<rparr>"
    using turn_off_lights_raises [OF assms] by blast
  show "lights_state (turn_off_lights port s) = ''Off''"
    using assms by simp
  have "log_text (turn_off_lights port s) = log_text s @ es @ [''Error turning off lights: '' @ e]"
    by (simp add: off)
  then show "\<exists>es. log_text (turn_off_lights port s) =
      log_text s @ es @ [''Error turning off lights: '' @ e]"
    by (intro exI)
next
  show "door_relay_state (turn_on_door_relay (Inl e) now s) = ''On''"
    using assms by simp
  show "log_text (turn_on_door_relay (Inl e) now s) = log_text s @ [''Error opening door: '' @ e]"
    using assms by (simp add: turn_on_door_relay_def)
  show "door_relay_state (turn_off_door_relay (Inl e) s) = ''Off''"
    using assms by simp
  show "log_text (turn_off_door_relay (Inl e) s) = log_text s @ [''Error closing door: '' @ e]"
    using assms by (simp add: turn_off_door_relay_def)
qed

theorem transport_error_still_updates_flag_witness:
  "is_connected ((initial 0)\<lparr>is_connected := True\<rparr>) \<and>
   port_error
     (Inr (\<lambda>frame. if frame = ''SDL,4,100'' @ [CHR 0x0D, CHR 0x0A] then Inr ''OK''
                   else Inl ''read failed''))
     commands_to_turn_on_lights = Some ''read failed'' \<and>
   lights_state (turn_on_lights
     (Inr (\<lambda>frame. if frame = ''SDL,4,100'' @ [CHR 0x0D, CHR 0x0A] then Inr ''OK''
                   else Inl ''read failed''))
     ((initial 0)\<lparr>is_connected := True\<rparr>)) = ''On'' \<and>
   log_text (turn_on_lights
     (Inr (\<lambda>frame. if frame = ''SDL,4,100'' @ [CHR 0x0D, CHR 0x0A] then Inr ''OK''
                   else Inl ''read failed''))
     ((initial 0)\<lparr>is_connected := True\<rparr>))
     = [''Light command response: OK'', ''Error turning on lights: read failed''] \<and>
   port_error (Inl ''could not open port'') commands_to_turn_off_lights
     = Some ''could not open port'' \<and>
   lights_state (turn_off_lights (Inl ''could not open port'')
     ((initial 0)\<lparr>is_connected := True, lights_state := ''On''\<rparr>)) = ''Off'' \<and>
   log_text (turn_off_lights (Inl ''could not open port'')
     ((initial 0)\<lparr>is_connected := True, lights_state := ''On''\<rparr>))
     = [''Error turning off lights: could not open port''] \<and>
   door_relay_state (turn_on_door_relay (Inl ''could not open port'') 5
     ((initial 0)\<lparr>is_connected := True\<rparr>)) = ''On'' \<and>
   door_relay_state (turn_off_door_relay (Inl ''could not open port'')
     ((initial 0)\<lparr>is_connected := True, lights_state := ''On''\<rparr>)) = ''Off''"
  using
    transport_error_still_updates_flag
      [of "(initial 0)\<lparr>is_connected := True\<rparr>"
          "Inr (\<lambda>frame. if frame = ''SDL,4,100'' @ [CHR 0x0D, CHR 0x0A] then Inr ''OK''
                        else Inl ''read failed'')"
          "''read failed''" 5]
    transport_error_still_updates_flag
      [of "(initial 0)\<lparr>is_connected := True, lights_state := ''On''\<rparr>"
          "Inl ''could not open port''" "''could not open port''" 5]
  by (simp add: initial_def turn_on_lights_def turn_off_lights_def log_event_def
      commands_to_turn_on_lights_def)

section \<open>Commands and monitor passes\<close>

lemma offline_relays_off_initial: "offline_relays_off (initial t0)"
  by (simp add: offline_relays_off_def initial_def)

lemma change_mode_energy_saving:
  "change_mode port ''Energy Saving'' s =
     log_event ''Mode changed to Energy Saving''
       (turn_off_lights port
          (s\<lparr>current_mode := ''Energy Saving'', auto_mode := True, scheduled_mode := True,
             temp_min := 18, temp_max := 23\<rparr>))"
  by (simp add: change_mode_def)

lemma set_temperature_range_invalid:
  assumes "temp_min s \<ge> temp_max s"
  shows "set_temperature_range float_str s =
           (s, showerror ''Error''
                 ''Minimum temperature must be less than maximum temperature.'')"
  using assms by (simp add: set_temperature_range_def)

text \<open>
  The request of the range (30, 25) on a controller that holds (20, 25): the entry field
  of the minimum is bound to \<^verbatim>\<open>temp_min\<close> (line 146), so typing 30 writes the variable, and
  the button then calls \<^verbatim>\<open>set_temperature_range\<close>. The state before the button is one of
  the running controller.
\<close>

lemma reachable_minimum_entered:
  "reachable
     ((try_connect_devices True
         (snd (start_all_monitoring (log_event ''System initialized'' (initial 0)))))
      \<lparr>temp_min := 30\<rparr>)"
  by (rule reachable.edit_temp_min, rule reachable.connected, rule starting.started)

text \<open>
  C4, where the code departs from the claim. The controller holds the range (20, 25) and
  the range (30, 25) is requested. \<^verbatim>\<open>set_temperature_range\<close> shows the error dialog, and
  the range it leaves is the rejected (30, 25), not the (20, 25) held before the request.
\<close>

theorem set_temperature_range_keeps_rejected_pair:
  "temp_min (try_connect_devices True
     (snd (start_all_monitoring (log_event ''System initialized'' (initial 0))))) = 20 \<and>
   temp_max (try_connect_devices True
     (snd (start_all_monitoring (log_event ''System initialized'' (initial 0))))) = 25 \<and>
   snd (set_temperature_range (\<lambda>x. ''30.0'')
     ((try_connect_devices True
         (snd (start_all_monitoring (log_event ''System initialized'' (initial 0)))))
      \<lparr>temp_min := 30\<rparr>))
     = showerror ''Error'' ''Minimum temperature must be less than maximum temperature.'' \<and>
   temp_min (fst (set_temperature_range (\<lambda>x. ''30.0'')
     ((try_connect_devices True
         (snd (start_all_monitoring (log_event ''System initialized'' (initial 0)))))
      \<lparr>temp_min := 30\<rparr>))) = 30 \<and>
   temp_max (fst (set_temperature_range (\<lambda>x. ''30.0'')
     ((try_connect_devices True
         (snd (start_all_monitoring (log_event ''System initialized'' (initial 0)))))
      \<lparr>temp_min := 30\<rparr>))) = 25"
  by (simp add: set_temperature_range_def try_connect_devices_def start_all_monitoring_def
      initial_def log_event_def)

text \<open>
  The monitors then work with the rejected range: after the mode is set to Auto, a pass
  of \<^verbatim>\<open>monitor_temperature\<close> at 22.0 finds the temperature below the minimum of 30 and
  switches the lights on.
\<close>

lemma rejected_range_in_force:
  "lights_state (monitor_temperature_body (\<lambda>x. ''22.0'') (Inr (\<lambda>frame. Inr ''OK'')) 0 0
     (change_mode (Inr (\<lambda>frame. Inr ''OK'')) ''Auto''
        (fst (set_temperature_range (\<lambda>x. ''30.0'')
           ((try_connect_devices True
               (snd (start_all_monitoring (log_event ''System initialized'' (initial 0)))))
            \<lparr>temp_min := 30\<rparr>))))) = ''On''"
  by (simp add: monitor_temperature_body_def Let_def change_mode_def
      set_temperature_range_def try_connect_devices_def start_all_monitoring_def
      initial_def float_unchanged)

lemma macros_Night:
  "macros ''Night'' = Some \<lparr>lights = ''Off'', temperature = 19, door = ''Off''\<rparr>"
  by (simp add: macros_def)

text \<open>
  C6, as the code has it. A pass of \<^verbatim>\<open>monitor_temperature\<close> with \<^verbatim>\<open>auto_mode\<close> set decides on
  \<open>new_temp\<close>, the float sum of \<^verbatim>\<open>current_temp\<close> and the fluctuation before it is rounded
  to one decimal for \<^verbatim>\<open>current_temp\<close>. Below \<^verbatim>\<open>temp_min\<close> the pass logs and calls
  \<^verbatim>\<open>turn_on_lights\<close>; otherwise, above \<^verbatim>\<open>temp_max\<close>, it logs and calls \<^verbatim>\<open>turn_off_lights\<close>;
  otherwise, from \<^verbatim>\<open>temp_min\<close> to \<^verbatim>\<open>temp_max\<close>, it only stores the two readings: no log
  entry, no relay command.
\<close>

theorem climate_pass_decides_on_new_temp:
  assumes "auto_mode s"
  shows "let new_temp = fadd (current_temp s) fluctuation;
             s2 = s\<lparr>current_temp := py_round new_temp 1,
                    current_humidity :=
                      py_round (max 30 (min 70 (fadd (current_humidity s) humidity_change))) 1\<rparr>;
             s' = monitor_temperature_body float_str port fluctuation humidity_change s
         in (new_temp < temp_min s \<longrightarrow>
               s' = turn_on_lights port
                      (log_event (''Temperature below minimum ('' @ float_str new_temp
                         @ degree_sign @ ''C). Activating heating.'') s2)) \<and>
            (\<not> new_temp < temp_min s \<and> new_temp > temp_max s \<longrightarrow>
               s' = turn_off_lights port
                      (log_event (''Temperature above maximum ('' @ float_str new_temp
                         @ degree_sign @ ''C). Deactivating heating.'') s2)) \<and>
            (temp_min s \<le> new_temp \<and> new_temp \<le> temp_max s \<longrightarrow> s' = s2)"
  using assms by (simp add: monitor_temperature_body_def Let_def)

theorem climate_pass_decides_on_new_temp_witness:
  "auto_mode ((initial 0)\<lparr>is_connected := True, auto_mode := True, current_temp := 20\<rparr>) \<and>
   fadd (current_temp
      ((initial 0)\<lparr>is_connected := True, auto_mode := True, current_temp := 20\<rparr>)) (- 0.25)
     < temp_min ((initial 0)\<lparr>is_connected := True, auto_mode := True, current_temp := 20\<rparr>) \<and>
   lights_state (monitor_temperature_body (\<lambda>x. ''19.75'') (Inr (\<lambda>frame. Inr ''OK'')) (- 0.25) 0
     ((initial 0)\<lparr>is_connected := True, auto_mode := True, current_temp := 20\<rparr>)) = ''On'' \<and>
   fadd (current_temp
      ((initial 0)\<lparr>is_connected := True, auto_mode := True, lights_state := ''On'',
         current_temp := 25\<rparr>)) 0.25
     > temp_max ((initial 0)\<lparr>is_connected := True, auto_mode := True, lights_state := ''On'',
         current_temp := 25\<rparr>) \<and>
   \<not> fadd (current_temp
      ((initial 0)\<lparr>is_connected := True, auto_mode := True, lights_state := ''On'',
         current_temp := 25\<rparr>)) 0.25
     < temp_min ((initial 0)\<lparr>is_connected := True, auto_mode := True, lights_state := ''On'',
         current_temp := 25\<rparr>) \<and>
   lights_state (monitor_temperature_body (\<lambda>x. ''25.25'') (Inr (\<lambda>frame. Inr ''OK'')) 0.25 0
     ((initial 0)\<lparr>is_connected := True, auto_mode := True, lights_state := ''On'',
        current_temp := 25\<rparr>)) = ''Off'' \<and>
   temp_min ((initial 0)\<lparr>is_connected := True, auto_mode := True\<rparr>)
     \<le> fadd (current_temp ((initial 0)\<lparr>is_connected := True, auto_mode := True\<rparr>)) 0.125 \<and>
   fadd (current_temp ((initial 0)\<lparr>is_connected := True, auto_mode := True\<rparr>)) 0.125
     \<le> temp_max ((initial 0)\<lparr>is_connected := True, auto_mode := True\<rparr>) \<and>
   monitor_temperature_body (\<lambda>x. ''22.125'') (Inr (\<lambda>frame. Inr ''OK'')) 0.125 0
     ((initial 0)\<lparr>is_connected := True, auto_mode := True\<rparr>)
     = (initial 0)\<lparr>is_connected := True, auto_mode := True,
          current_temp := nearest_float 22.1\<rparr>"
  using
    climate_pass_decides_on_new_temp
      [of "(initial 0)\<lparr>is_connected := True, auto_mode := True, current_temp := 20\<rparr>"
          "- 0.25" 0 "\<lambda>x. ''19.75''" "Inr (\<lambda>frame. Inr ''OK'')"]
    climate_pass_decides_on_new_temp
      [of "(initial 0)\<lparr>is_connected := True, auto_mode := True, lights_state := ''On'',
             current_temp := 25\<rparr>"
          "0.25" 0 "\<lambda>x. ''25.25''" "Inr (\<lambda>frame. Inr ''OK'')"]
    climate_pass_decides_on_new_temp
      [of "(initial 0)\<lparr>is_connected := True, auto_mode := True\<rparr>"
          "0.125" 0 "\<lambda>x. ''22.125''" "Inr (\<lambda>frame. Inr ''OK'')"]
  by (simp add: initial_def Let_def float_sums float_roundings float_unchanged)

text \<open>
  The claim C6 as worded fails in two ways. With the range (25, 20), as the entry fields
  allow, and a temperature of 22.0, above the maximum, the pass switches the lights on,
  not off. And with the range (20, 25), from 20.2 a fluctuation of -0.22 gives the sum
  19.98: the value stored in \<^verbatim>\<open>current_temp\<close> is 20.0, within the range, and the pass
  logs and switches the lights on.
\<close>

theorem climate_pass_counterexample:
  "auto_mode ((initial 0)\<lparr>is_connected := True, auto_mode := True, current_mode := ''Auto'',
      temp_min := 25, temp_max := 20\<rparr>) \<and>
   lights_state ((initial 0)\<lparr>is_connected := True, auto_mode := True, current_mode := ''Auto'',
      temp_min := 25, temp_max := 20\<rparr>) = ''Off'' \<and>
   current_temp (monitor_temperature_body (\<lambda>x. ''22.0'') (Inr (\<lambda>frame. Inr ''OK'')) 0 0
     ((initial 0)\<lparr>is_connected := True, auto_mode := True, current_mode := ''Auto'',
        temp_min := 25, temp_max := 20\<rparr>)) = 22 \<and>
   temp_max (monitor_temperature_body (\<lambda>x. ''22.0'') (Inr (\<lambda>frame. Inr ''OK'')) 0 0
     ((initial 0)\<lparr>is_connected := True, auto_mode := True, current_mode := ''Auto'',
        temp_min := 25, temp_max := 20\<rparr>)) = 20 \<and>
   lights_state (monitor_temperature_body (\<lambda>x. ''22.0'') (Inr (\<lambda>frame. Inr ''OK'')) 0 0
     ((initial 0)\<lparr>is_connected := True, auto_mode := True, current_mode := ''Auto'',
        temp_min := 25, temp_max := 20\<rparr>)) = ''On'' \<and>
   auto_mode ((initial 0)\<lparr>is_connected := True, auto_mode := True, current_mode := ''Auto'',
      current_temp := nearest_float 20.2\<rparr>) \<and>
   current_temp (monitor_temperature_body (\<lambda>x. ''19.98'') (Inr (\<lambda>frame. Inr ''OK''))
     (nearest_float (- 0.22)) 0
     ((initial 0)\<lparr>is_connected := True, auto_mode := True, current_mode := ''Auto'',
        current_temp := nearest_float 20.2\<rparr>)) = 20 \<and>
   temp_min (monitor_temperature_body (\<lambda>x. ''19.98'') (Inr (\<lambda>frame. Inr ''OK''))
     (nearest_float (- 0.22)) 0
     ((initial 0)\<lparr>is_connected := True, auto_mode := True, current_mode := ''Auto'',
        current_temp := nearest_float 20.2\<rparr>)) = 20 \<and>
   temp_max (monitor_temperature_body (\<lambda>x. ''19.98'') (Inr (\<lambda>frame. Inr ''OK''))
     (nearest_float (- 0.22)) 0
     ((initial 0)\<lparr>is_connected := True, auto_mode := True, current_mode := ''Auto'',
        current_temp := nearest_float 20.2\<rparr>)) = 25 \<and>
   lights_state (monitor_temperature_body (\<lambda>x. ''19.98'') (Inr (\<lambda>frame. Inr ''OK''))
     (nearest_float (- 0.22)) 0
     ((initial 0)\<lparr>is_connected := True, auto_mode := True, current_mode := ''Auto'',
        current_temp := nearest_float 20.2\<rparr>)) = ''On'' \<and>
   hd (log_text (monitor_temperature_body (\<lambda>x. ''19.98'') (Inr (\<lambda>frame. Inr ''OK''))
     (nearest_float (- 0.22)) 0
     ((initial 0)\<lparr>is_connected := True, auto_mode := True, current_mode := ''Auto'',
        current_temp := nearest_float 20.2\<rparr>)))
     = ''Temperature below minimum (19.98'' @ degree_sign @ ''C). Activating heating.''"
  by (simp add: monitor_temperature_body_def Let_def initial_def float_sum_below_minimum
      float_unchanged turn_on_lights_def commands_to_turn_on_lights_def log_event_def)

text \<open>
  C1, as the code has it. The test of the door is inside \<^verbatim>\<open>if self.auto_mode.get()\<close>. With
  \<^verbatim>\<open>auto_mode\<close> set, the door relay on and more than 10 seconds since \<^verbatim>\<open>door_open_time\<close>,
  a pass of \<^verbatim>\<open>auto_mode_monitor\<close> calls \<^verbatim>\<open>turn_off_door_relay\<close> (after the lights were
  switched, if the temperature asked for it) and then logs
  \<^verbatim>\<open>Auto-closed door after timeout\<close>; when connected, the door relay ends off. With
  \<^verbatim>\<open>auto_mode\<close> clear the pass does nothing.
\<close>

theorem auto_close_under_auto_mode:
  "(auto_mode s \<and> door_relay_state s = ''On'' \<and> now - door_open_time s > 10 \<longrightarrow>
      (let s' = auto_mode_monitor_body port port2 now s in
         (s' = log_event ''Auto-closed door after timeout'' (turn_off_door_relay port2 s) \<or>
          s' = log_event ''Auto-closed door after timeout''
                 (turn_off_door_relay port2 (turn_on_lights port s)) \<or>
          s' = log_event ''Auto-closed door after timeout''
                 (turn_off_door_relay port2 (turn_off_lights port s))) \<and>
         last (log_text s') = ''Auto-closed door after timeout'' \<and>
         (is_connected s \<longrightarrow> door_relay_state s' = ''Off''))) \<and>
   (\<not> auto_mode s \<longrightarrow> auto_mode_monitor_body port port2 now s = s)"
proof (intro conjI impI)
  assume a: "auto_mode s \<and> door_relay_state s = ''On'' \<and> now - door_open_time s > 10"
  let ?close = "\<lambda>x. log_event ''Auto-closed door after timeout'' (turn_off_door_relay port2 x)"
  let ?s' = "auto_mode_monitor_body port port2 now s"
  have cases: "?s' = ?close s \<or> ?s' = ?close (turn_on_lights port s)
      \<or> ?s' = ?close (turn_off_lights port s)"
    using a by (simp add: auto_mode_monitor_body_def Let_def)
  have "last (log_text (?close x)) = ''Auto-closed door after timeout''" for x
    by simp
  moreover have "is_connected s \<Longrightarrow> door_relay_state (?close x) = ''Off''"
    if "is_connected x = is_connected s" for x
    using that by simp
  ultimately show "let s' = ?s' in
      (s' = ?close s \<or> s' = ?close (turn_on_lights port s) \<or> s' = ?close (turn_off_lights port s))
      \<and> last (log_text s') = ''Auto-closed door after timeout''
      \<and> (is_connected s \<longrightarrow> door_relay_state s' = ''Off'')"
    using cases unfolding Let_def
    by (metis turn_on_lights_fields(4) turn_off_lights_fields(4))
next
  assume "\<not> auto_mode s"
  then show "auto_mode_monitor_body port port2 now s = s"
    by (simp add: auto_mode_monitor_body_def)
qed

theorem auto_close_under_auto_mode_witness:
  "auto_mode ((initial 0)\<lparr>is_connected := True, auto_mode := True, current_mode := ''Auto'',
      door_relay_state := ''On'', door_open_time := 100\<rparr>) \<and>
   door_relay_state ((initial 0)\<lparr>is_connected := True, auto_mode := True,
      current_mode := ''Auto'', door_relay_state := ''On'', door_open_time := 100\<rparr>) = ''On'' \<and>
   111 - door_open_time ((initial 0)\<lparr>is_connected := True, auto_mode := True,
      current_mode := ''Auto'', door_relay_state := ''On'', door_open_time := 100\<rparr>) > 10 \<and>
   door_relay_state (auto_mode_monitor_body (Inr (\<lambda>frame. Inr ''OK'')) (Inr ''OK'') 111
     ((initial 0)\<lparr>is_connected := True, auto_mode := True, current_mode := ''Auto'',
        door_relay_state := ''On'', door_open_time := 100\<rparr>)) = ''Off'' \<and>
   last (log_text (auto_mode_monitor_body (Inr (\<lambda>frame. Inr ''OK'')) (Inr ''OK'') 111
     ((initial 0)\<lparr>is_connected := True, auto_mode := True, current_mode := ''Auto'',
        door_relay_state := ''On'', door_open_time := 100\<rparr>)))
     = ''Auto-closed door after timeout'' \<and>
   \<not> auto_mode ((initial 0)\<lparr>is_connected := True, door_relay_state := ''On'',
      door_open_time := 100\<rparr>) \<and>
   auto_mode_monitor_body (Inr (\<lambda>frame. Inr ''OK'')) (Inr ''OK'') 111
     ((initial 0)\<lparr>is_connected := True, door_relay_state := ''On'', door_open_time := 100\<rparr>)
     = (initial 0)\<lparr>is_connected := True, door_relay_state := ''On'', door_open_time := 100\<rparr>"
  using
    auto_close_under_auto_mode
      [of "(initial 0)\<lparr>is_connected := True, auto_mode := True, current_mode := ''Auto'',
             door_relay_state := ''On'', door_open_time := 100\<rparr>"
          111 "Inr (\<lambda>frame. Inr ''OK'')" "Inr ''OK''"]
    auto_close_under_auto_mode
      [of "(initial 0)\<lparr>is_connected := True, door_relay_state := ''On'',
             door_open_time := 100\<rparr>"
          111 "Inr (\<lambda>frame. Inr ''OK'')" "Inr ''OK''"]
  by (simp add: initial_def Let_def auto_mode_monitor_body_def turn_off_door_relay_def
      log_event_def)

text \<open>
  The claim C1 as worded fails in Manual mode: connected, the door open since 100, the
  clock at 111 and \<^verbatim>\<open>auto_mode\<close> clear. The pass leaves the door relay on and logs nothing.
\<close>

theorem auto_close_manual_mode_counterexample:
  "current_mode ((initial 0)\<lparr>is_connected := True, door_relay_state := ''On'',
      door_open_time := 100\<rparr>) = ''Manual'' \<and>
   door_relay_state ((initial 0)\<lparr>is_connected := True, door_relay_state := ''On'',
      door_open_time := 100\<rparr>) = ''On'' \<and>
   111 - door_open_time ((initial 0)\<lparr>is_connected := True, door_relay_state := ''On'',
      door_open_time := 100\<rparr>) > 10 \<and>
   door_relay_state (auto_mode_monitor_body (Inr (\<lambda>frame. Inr ''OK'')) (Inr ''OK'') 111
     ((initial 0)\<lparr>is_connected := True, door_relay_state := ''On'', door_open_time := 100\<rparr>))
     = ''On'' \<and>
   log_text (auto_mode_monitor_body (Inr (\<lambda>frame. Inr ''OK'')) (Inr ''OK'') 111
     ((initial 0)\<lparr>is_connected := True, door_relay_state := ''On'', door_open_time := 100\<rparr>))
     = []"
  by (simp add: initial_def auto_mode_monitor_body_def)

text \<open>
  \<^verbatim>\<open>start_all_monitoring\<close> runs once, from \<^verbatim>\<open>__init__\<close>, where \<^verbatim>\<open>auto_mode\<close> is still false:
  the thread of \<^verbatim>\<open>auto_mode_monitor\<close> is not among those it starts.
\<close>

lemma start_all_monitoring_initial:
  "fst (start_all_monitoring (log_event ''System initialized'' (initial t0))) =
     [Thread_monitor_temperature, Thread_monitor_schedule, Thread_monitor_energy_usage]"
  by (simp add: start_all_monitoring_def initial_def log_event_def)

lemma macros_door_off:
  assumes "macros macro_name = Some m"
  shows "door m = ''Off''"
  using assms by (auto simp add: macros_def split: if_splits)

text \<open>
  C8, as the code has it. \<^verbatim>\<open>door_open_time\<close> is set to the clock reading by every
  \<^verbatim>\<open>turn_on_door_relay\<close> whose serial exchange succeeds, whether the door was open
  before or not. \<^verbatim>\<open>turn_off_door_relay\<close> never changes it: closing the door does not
  clear it. No macro changes it either, since every entry of \<^verbatim>\<open>macros\<close> has the door off.
\<close>

theorem door_open_time_set_on_open_kept_on_close:
  "(is_connected s \<longrightarrow>
      door_relay_state (turn_on_door_relay (Inr response) now s) = ''On'' \<and>
      door_open_time (turn_on_door_relay (Inr response) now s) = now) \<and>
   door_open_time (turn_off_door_relay port2 s) = door_open_time s \<and>
   door_open_time (fst (apply_macro port port2 now macro_name s)) = door_open_time s"
proof (intro conjI impI)
  assume "is_connected s"
  then show "door_relay_state (turn_on_door_relay (Inr response) now s) = ''On''"
    and "door_open_time (turn_on_door_relay (Inr response) now s) = now"
    by simp_all
next
  show "door_open_time (turn_off_door_relay port2 s) = door_open_time s"
    by simp
next
  show "door_open_time (fst (apply_macro port port2 now macro_name s)) = door_open_time s"
  proof (cases "macros macro_name")
    case None
    then show ?thesis by (simp add: apply_macro_def)
  next
    case (Some m)
    then have "door m = ''Off''" by (rule macros_door_off)
    with Some show ?thesis by (simp add: apply_macro_def Let_def)
  qed
qed

theorem door_open_time_set_on_open_kept_on_close_witness:
  "is_connected ((initial 0)\<lparr>is_connected := True\<rparr>) \<and>
   door_relay_state (turn_on_door_relay (Inr ''OK'') 100 ((initial 0)\<lparr>is_connected := True\<rparr>))
     = ''On'' \<and>
   door_open_time (turn_on_door_relay (Inr ''OK'') 100 ((initial 0)\<lparr>is_connected := True\<rparr>))
     = 100"
  using door_open_time_set_on_open_kept_on_close
    [of "(initial 0)\<lparr>is_connected := True\<rparr>" "''OK''" 100]
  by (simp add: initial_def)

text \<open>
  The claim C8 as worded fails: connected, the door open since 100. Closing the door
  leaves \<^verbatim>\<open>door_open_time\<close> at 100, and opening the open door again at 200 moves it to 200.
\<close>

theorem door_open_time_counterexample:
  "door_relay_state (turn_off_door_relay (Inr ''OK'')
     ((initial 0)\<lparr>is_connected := True, door_relay_state := ''On'', door_open_time := 100\<rparr>))
     = ''Off'' \<and>
   door_open_time (turn_off_door_relay (Inr ''OK'')
     ((initial 0)\<lparr>is_connected := True, door_relay_state := ''On'', door_open_time := 100\<rparr>))
     = 100 \<and>
   door_relay_state
     ((initial 0)\<lparr>is_connected := True, door_relay_state := ''On'', door_open_time := 100\<rparr>)
     = ''On'' \<and>
   door_open_time (turn_on_door_relay (Inr ''OK'') 200
     ((initial 0)\<lparr>is_connected := True, door_relay_state := ''On'', door_open_time := 100\<rparr>))
     = 200"
  by (simp add: initial_def turn_off_door_relay_def turn_on_door_relay_def log_event_def)

text \<open>
  C9, as the code has it. When the effects of the mode are already in place,
  \<^verbatim>\<open>change_mode(mode)\<close> changes the log and nothing else. It adds the one entry
  \<^verbatim>\<open>Mode changed to ...\<close>, except for Energy Saving, where the entries of the call of
  \<^verbatim>\<open>turn_off_lights\<close> come before it.
\<close>

theorem reentering_mode_changes_only_log:
  assumes "mode_in_effect mode s"
  shows "\<exists>es. change_mode port mode s =
                s\<lparr>log_text := log_text s @ es @ [''Mode changed to '' @ mode]\<rparr> \<and>
              (mode \<noteq> ''Energy Saving'' \<longrightarrow> es = [])"
proof (cases "mode = ''Energy Saving''")
  case False
  consider "mode = ''Auto''" | "mode = ''Schedule''"
    | "mode \<noteq> ''Auto'' \<and> mode \<noteq> ''Schedule''" by blast
  then have "change_mode port mode s = log_event (''Mode changed to '' @ mode) s"
  proof cases
    case 1
    with assms have "s\<lparr>current_mode := ''Auto'', auto_mode := True, scheduled_mode := False\<rparr> = s"
      by (cases s) (simp add: mode_in_effect_def)
    with 1 show ?thesis by (simp add: change_mode_def)
  next
    case 2
    with assms have
      "s\<lparr>current_mode := ''Schedule'', auto_mode := False, scheduled_mode := True\<rparr> = s"
      by (cases s) (simp add: mode_in_effect_def)
    with 2 show ?thesis by (simp add: change_mode_def)
  next
    case 3
    with assms False have
      "s\<lparr>current_mode := mode, auto_mode := False, scheduled_mode := False\<rparr> = s"
      by (cases s) (simp add: mode_in_effect_def)
    with 3 False show ?thesis by (simp add: change_mode_def)
  qed
  then have "change_mode port mode s =
      s\<lparr>log_text := log_text s @ [] @ [''Mode changed to '' @ mode]\<rparr>"
    by (simp add: log_event_def)
  with False show ?thesis by blast
next
  case True
  let ?s0 = "s\<lparr>current_mode := ''Energy Saving'', auto_mode := True, scheduled_mode := True,
    temp_min := 18, temp_max := 23\<rparr>"
  have s0: "?s0 = s"
    using assms True by (cases s) (simp add: mode_in_effect_def)
  obtain es where "turn_off_lights port s =
      s\<lparr>lights_state := (if is_connected s then ''Off'' else lights_state s),
        log_text := log_text s @ es\<rparr>"
    using turn_off_lights_frame [of port s] by (rule exE)
  moreover have "lights_state s = ''Off''"
    using assms True by (simp add: mode_in_effect_def)
  ultimately have off: "turn_off_lights port s = s\<lparr>log_text := log_text s @ es\<rparr>"
    by (cases s) simp
  have "change_mode port mode s =
      s\<lparr>log_text := log_text s @ es @ [''Mode changed to '' @ mode]\<rparr>"
    using True by (simp add: change_mode_energy_saving s0 off log_event_def)
  with True show ?thesis by blast
qed

theorem reentering_mode_changes_only_log_witness:
  "mode_in_effect ''Manual'' (initial 0) \<and>
   change_mode (Inr (\<lambda>frame. Inr ''OK'')) ''Manual'' (initial 0) =
     (initial 0)\<lparr>log_text := [''Mode changed to Manual'']\<rparr> \<and>
   mode_in_effect ''Energy Saving''
     ((initial 0)\<lparr>current_mode := ''Energy Saving'', auto_mode := True, scheduled_mode := True,
        temp_min := 18, temp_max := 23\<rparr>) \<and>
   change_mode (Inr (\<lambda>frame. Inr ''OK'')) ''Energy Saving''
     ((initial 0)\<lparr>current_mode := ''Energy Saving'', auto_mode := True, scheduled_mode := True,
        temp_min := 18, temp_max := 23\<rparr>) =
     (initial 0)\<lparr>current_mode := ''Energy Saving'', auto_mode := True, scheduled_mode := True,
        temp_min := 18, temp_max := 23,
        log_text := [''System not connected. Unable to turn off lights.'',
                     ''Mode changed to Energy Saving'']\<rparr>"
  using
    reentering_mode_changes_only_log [of "''Manual''" "initial 0" "Inr (\<lambda>frame. Inr ''OK'')"]
    reentering_mode_changes_only_log
      [of "''Energy Saving''"
          "(initial 0)\<lparr>current_mode := ''Energy Saving'', auto_mode := True,
             scheduled_mode := True, temp_min := 18, temp_max := 23\<rparr>"
          "Inr (\<lambda>frame. Inr ''OK'')"]
  by (simp add: mode_in_effect_def initial_def change_mode_def turn_off_lights_def log_event_def)

text \<open>
  The claim C9 as worded fails for Energy Saving: connected, the mode already Energy
  Saving, the lights switched on since. Entering the mode again switches the lights off,
  so the state after is not the state before with one more log entry.
\<close>

theorem reentering_energy_saving_counterexample:
  "current_mode
     ((initial 0)\<lparr>is_connected := True, current_mode := ''Energy Saving'', auto_mode := True,
        scheduled_mode := True, temp_min := 18, temp_max := 23, lights_state := ''On''\<rparr>)
     = ''Energy Saving'' \<and>
   (\<forall>e. change_mode (Inr (\<lambda>frame. Inr ''OK'')) ''Energy Saving''
      ((initial 0)\<lparr>is_connected := True, current_mode := ''Energy Saving'', auto_mode := True,
         scheduled_mode := True, temp_min := 18, temp_max := 23, lights_state := ''On''\<rparr>)
      \<noteq> ((initial 0)\<lparr>is_connected := True, current_mode := ''Energy Saving'',
           auto_mode := True, scheduled_mode := True, temp_min := 18, temp_max := 23,
           lights_state := ''On''\<rparr>)
          \<lparr>log_text := log_text ((initial 0)\<lparr>is_connected := True,
             current_mode := ''Energy Saving'', auto_mode := True, scheduled_mode := True,
             temp_min := 18, temp_max := 23, lights_state := ''On''\<rparr>) @ [e]\<rparr>)"
proof (intro conjI allI notI)
  let ?s = "(initial 0)\<lparr>is_connected := True, current_mode := ''Energy Saving'',
    auto_mode := True, scheduled_mode := True, temp_min := 18, temp_max := 23,
    lights_state := ''On''\<rparr>"
  let ?port = "Inr (\<lambda>frame. Inr ''OK'') :: light_serial"
  show "current_mode ?s = ''Energy Saving''" by simp
  fix e
  assume eq: "change_mode ?port ''Energy Saving'' ?s = ?s\<lparr>log_text := log_text ?s @ [e]\<rparr>"
  have "lights_state (change_mode ?port ''Energy Saving'' ?s) = ''Off''"
    by (simp add: change_mode_energy_saving)
  then have "lights_state (?s\<lparr>log_text := log_text ?s @ [e]\<rparr>) = ''Off''"
    by (simp only: eq)
  then show False by simp
qed

section \<open>Energy accounting\<close>

text \<open>
  C7, where the code departs from the claim. Lights on and door open, usage 0.0, and a
  pass of \<^verbatim>\<open>monitor_energy_usage\<close> 60 seconds after the last sample, the period of the
  loop: the increment of the claim is 1.5 * (60 / 3600) * 0.1 = 0.0025, and the usage
  stored by the pass is 0.0, since \<^verbatim>\<open>round(..., 2)\<close> is applied to the sum. After a second
  pass, 60 seconds later, it is still 0.0.
\<close>

theorem energy_pass_discards_increment:
  "energy_usage ((initial 1700000000)\<lparr>is_connected := True, lights_state := ''On'',
      door_relay_state := ''On''\<rparr>) = 0 \<and>
   energy_usage ((initial 1700000000)\<lparr>is_connected := True, lights_state := ''On'',
      door_relay_state := ''On''\<rparr>)
     + (1.0 + 0.5) * ((1700000060 - last_energy_update ((initial 1700000000)
         \<lparr>is_connected := True, lights_state := ''On'', door_relay_state := ''On''\<rparr>)) / 3600)
       * 0.1 = 0.0025 \<and>
   energy_usage (monitor_energy_usage_body 1700000060 1700000060
     ((initial 1700000000)\<lparr>is_connected := True, lights_state := ''On'',
        door_relay_state := ''On''\<rparr>)) = 0 \<and>
   last_energy_update (monitor_energy_usage_body 1700000060 1700000060
     ((initial 1700000000)\<lparr>is_connected := True, lights_state := ''On'',
        door_relay_state := ''On''\<rparr>)) = 1700000060 \<and>
   energy_usage (monitor_energy_usage_body 1700000120 1700000120
     (monitor_energy_usage_body 1700000060 1700000060
        ((initial 1700000000)\<lparr>is_connected := True, lights_state := ''On'',
           door_relay_state := ''On''\<rparr>))) = 0"
  by (simp add: monitor_energy_usage_body_def Let_def initial_def float_increments)

text \<open>
  The same for every state with a usage of 0.0 and whatever the relays: a pass whose
  elapsed time is 60 seconds leaves the usage at 0.0.
\<close>

lemma energy_usage_stays_zero_at_60:
  assumes "energy_usage s = 0" and "fsub t_read (last_energy_update s) = 60"
  shows "energy_usage (monitor_energy_usage_body t_read t_store s) = 0"
  using assms by (simp add: monitor_energy_usage_body_def Let_def float_increments_60)

section \<open>The states of the running controller\<close>

text \<open>
  \<open>offline_relays_off\<close> holds of the attribute values of \<^verbatim>\<open>__init__\<close> and is kept by
  every operation of the model, whatever the ports do.
\<close>

lemma offline_relays_off_actuation:
  assumes "offline_relays_off s"
  shows "offline_relays_off (turn_on_lights port s)"
    and "offline_relays_off (turn_off_lights port s)"
    and "offline_relays_off (turn_on_door_relay port2 now s)"
    and "offline_relays_off (turn_off_door_relay port2 s)"
    and "offline_relays_off (log_event m s)"
  using assms by (auto simp add: offline_relays_off_def)

lemma offline_relays_off_change_mode:
  assumes "offline_relays_off s"
  shows "offline_relays_off (change_mode port mode s)"
  using assms by (auto simp add: change_mode_def Let_def offline_relays_off_def)

lemma offline_relays_off_apply_macro:
  assumes "offline_relays_off s"
  shows "offline_relays_off (fst (apply_macro port port2 now macro_name s))"
proof (cases "macros macro_name")
  case None
  with assms show ?thesis by (simp add: apply_macro_def)
next
  case (Some m)
  let ?s1 = "if lights m = ''On'' then turn_on_lights port s else turn_off_lights port s"
  have "offline_relays_off ?s1"
    using assms by (simp add: offline_relays_off_actuation)
  then have s2: "offline_relays_off (?s1\<lparr>current_temp := temperature m\<rparr>)"
    by (simp add: offline_relays_off_def)
  let ?s2 = "?s1\<lparr>current_temp := temperature m\<rparr>"
  have "offline_relays_off
      (if door m = ''On'' then turn_on_door_relay port2 now ?s2 else turn_off_door_relay port2 ?s2)"
    using s2 by (simp add: offline_relays_off_actuation)
  then have "offline_relays_off (log_event (''Applied macro: '' @ macro_name)
      (if door m = ''On'' then turn_on_door_relay port2 now ?s2 else turn_off_door_relay port2 ?s2))"
    by (rule offline_relays_off_actuation)
  with Some show ?thesis by (simp add: apply_macro_def Let_def)
qed

lemma offline_relays_off_set_temperature_range:
  assumes "offline_relays_off s"
  shows "offline_relays_off (fst (set_temperature_range float_str s))"
  using assms by (simp add: set_temperature_range_def Let_def offline_relays_off_actuation)

lemma offline_relays_off_monitor_temperature:
  assumes "offline_relays_off s"
  shows "offline_relays_off (monitor_temperature_body float_str port fluctuation humidity_change s)"
proof -
  have "offline_relays_off (s\<lparr>current_temp := a, current_humidity := b\<rparr>)" for a b
    using assms by (simp add: offline_relays_off_def)
  then show ?thesis
    by (simp add: monitor_temperature_body_def Let_def offline_relays_off_actuation)
qed

lemma offline_relays_off_auto_mode_monitor:
  assumes "offline_relays_off s"
  shows "offline_relays_off (auto_mode_monitor_body port port2 now s)"
  using assms by (simp add: auto_mode_monitor_body_def Let_def offline_relays_off_actuation)

lemma offline_relays_off_monitor_energy_usage:
  assumes "offline_relays_off s"
  shows "offline_relays_off (monitor_energy_usage_body t_read t_store s)"
  using assms by (simp add: monitor_energy_usage_body_def Let_def offline_relays_off_def)

lemma offline_relays_off_monitor_schedule:
  assumes "offline_relays_off s"
  shows "offline_relays_off (monitor_schedule_body port port' current_time s)"
  using assms by (auto simp add: monitor_schedule_body_def Let_def offline_relays_off_def)

lemma starting_not_connected:
  assumes "starting s"
  shows "\<not> is_connected s \<and> lights_state s = ''Off'' \<and> door_relay_state s = ''Off''"
  using assms
proof (induction rule: starting.induct)
  case (started t0)
  show ?case by (simp add: start_all_monitoring_def initial_def)
next
  case (starting_temperature s float_str port fluctuation humidity_change)
  then show ?case by (simp add: monitor_temperature_body_def Let_def)
next
  case (starting_schedule s port port' current_time)
  then show ?case by (simp add: monitor_schedule_body_def Let_def)
next
  case (starting_energy s t_read t_store)
  then show ?case by (simp add: monitor_energy_usage_body_def Let_def)
qed

text \<open>Every state of the running controller has its relays off unless it is connected.\<close>

lemma reachable_offline_relays_off:
  assumes "reachable s"
  shows "offline_relays_off s"
  using assms
proof (induction rule: reachable.induct)
  case (connected s probe_ok)
  then show ?case
    using starting_not_connected [of s]
    by (simp add: try_connect_devices_def offline_relays_off_def)
next
  case (check_box s b)
  then show ?case by (simp add: toggle_scheduled_mode_def offline_relays_off_def)
next
  case (schedule_button s strptime_ok)
  then show ?case by (simp add: update_schedule_def Let_def offline_relays_off_def)
next
  case (range_button s float_str)
  then show ?case by (simp add: offline_relays_off_set_temperature_range)
next
  case (mode_button s port mode)
  then show ?case by (simp add: offline_relays_off_change_mode)
next
  case (macro_button s port port2 now macro_name)
  then show ?case by (simp add: offline_relays_off_apply_macro)
next
  case (all_on_button s port port2 now)
  then show ?case by (simp add: all_systems_on_def offline_relays_off_actuation)
next
  case (all_off_button s port port2)
  then show ?case by (simp add: all_systems_off_def offline_relays_off_actuation)
next
  case (temperature_pass s float_str port fluctuation humidity_change)
  then show ?case by (simp add: offline_relays_off_monitor_temperature)
next
  case (schedule_pass s port port' current_time)
  then show ?case by (simp add: offline_relays_off_monitor_schedule)
next
  case (auto_mode_pass s port port2 now)
  then show ?case by (simp add: offline_relays_off_auto_mode_monitor)
next
  case (energy_pass s t_read t_store)
  then show ?case by (simp add: offline_relays_off_monitor_energy_usage)
qed (auto simp add: offline_relays_off_actuation offline_relays_off_def)

lemma energy_saving_effects_offline_relays_off:
  assumes "offline_relays_off s"
  shows "temp_min (change_mode port ''Energy Saving'' s) = 18 \<and>
         temp_max (change_mode port ''Energy Saving'' s) = 23 \<and>
         lights_state (change_mode port ''Energy Saving'' s) = ''Off'' \<and>
         current_mode (change_mode port ''Energy Saving'' s) = ''Energy Saving'' \<and>
         auto_mode (change_mode port ''Energy Saving'' s) \<and>
         scheduled_mode (change_mode port ''Energy Saving'' s)"
  using assms by (auto simp add: change_mode_energy_saving offline_relays_off_def)

lemma night_macro_effects_offline_relays_off:
  assumes "offline_relays_off s"
  shows "lights_state (fst (apply_macro port port2 now ''Night'' s)) = ''Off'' \<and>
         current_temp (fst (apply_macro port port2 now ''Night'' s)) = 19 \<and>
         door_relay_state (fst (apply_macro port port2 now ''Night'' s)) = ''Off''"
proof -
  let ?s2 = "(turn_off_lights port s)\<lparr>current_temp := 19\<rparr>"
  have "fst (apply_macro port port2 now ''Night'' s) =
      log_event ''Applied macro: Night'' (turn_off_door_relay port2 ?s2)"
    by (simp add: apply_macro_def macros_Night)
  then show ?thesis
    using assms by (auto simp add: offline_relays_off_def)
qed

text \<open>A connected controller whose lights and door were switched on from the window.\<close>

lemma reachable_lights_and_door_on:
  "reachable
     (turn_on_door_relay (Inr ''OK'') 5
        (turn_on_lights (Inr (\<lambda>frame. Inr ''OK''))
           (try_connect_devices True
              (snd (start_all_monitoring (log_event ''System initialized'' (initial 0)))))))"
  by (rule reachable.door_open_button, rule reachable.lights_on_button,
      rule reachable.connected, rule starting.started)

text \<open>
  C3. From every state of the running controller, \<^verbatim>\<open>change_mode("Energy Saving")\<close> ends
  with the range 18.0 to 23.0, the lights off, the mode Energy Saving and both
  \<^verbatim>\<open>auto_mode\<close> and \<^verbatim>\<open>scheduled_mode\<close> set. (The lights end off because a connected
  controller sets the variable even when the port fails, and one that is not connected
  never switched them on.)
\<close>

theorem energy_saving_mode_effects:
  assumes "reachable s"
  shows "temp_min (change_mode port ''Energy Saving'' s) = 18 \<and>
         temp_max (change_mode port ''Energy Saving'' s) = 23 \<and>
         lights_state (change_mode port ''Energy Saving'' s) = ''Off'' \<and>
         current_mode (change_mode port ''Energy Saving'' s) = ''Energy Saving'' \<and>
         auto_mode (change_mode port ''Energy Saving'' s) \<and>
         scheduled_mode (change_mode port ''Energy Saving'' s)"
  using assms
  by (intro energy_saving_effects_offline_relays_off reachable_offline_relays_off)

theorem energy_saving_mode_effects_witness:
  "reachable
     (turn_on_door_relay (Inr ''OK'') 5
        (turn_on_lights (Inr (\<lambda>frame. Inr ''OK''))
           (try_connect_devices True
              (snd (start_all_monitoring (log_event ''System initialized'' (initial 0))))))) \<and>
   lights_state
     (turn_on_door_relay (Inr ''OK'') 5
        (turn_on_lights (Inr (\<lambda>frame. Inr ''OK''))
           (try_connect_devices True
              (snd (start_all_monitoring (log_event ''System initialized'' (initial 0)))))))
     = ''On'' \<and>
   lights_state (change_mode (Inr (\<lambda>frame. Inr ''OK'')) ''Energy Saving''
     (turn_on_door_relay (Inr ''OK'') 5
        (turn_on_lights (Inr (\<lambda>frame. Inr ''OK''))
           (try_connect_devices True
              (snd (start_all_monitoring (log_event ''System initialized'' (initial 0))))))))
     = ''Off'' \<and>
   temp_min (change_mode (Inr (\<lambda>frame. Inr ''OK'')) ''Energy Saving''
     (turn_on_door_relay (Inr ''OK'') 5
        (turn_on_lights (Inr (\<lambda>frame. Inr ''OK''))
           (try_connect_devices True
              (snd (start_all_monitoring (log_event ''System initialized'' (initial 0))))))))
     = 18 \<and>
   temp_max (change_mode (Inr (\<lambda>frame. Inr ''OK'')) ''Energy Saving''
     (turn_on_door_relay (Inr ''OK'') 5
        (turn_on_lights (Inr (\<lambda>frame. Inr ''OK''))
           (try_connect_devices True
              (snd (start_all_monitoring (log_event ''System initialized'' (initial 0))))))))
     = 23"
  using reachable_lights_and_door_on
    energy_saving_mode_effects [OF reachable_lights_and_door_on, of "Inr (\<lambda>frame. Inr ''OK'')"]
  by (simp add: try_connect_devices_def start_all_monitoring_def)

text \<open>
  C5. From every state of the running controller, \<^verbatim>\<open>apply_macro("Night")\<close> ends with
  the lights off, \<^verbatim>\<open>current_temp\<close> equal to 19.0 (the macro's value is stored as it is)
  and the door relay off.
\<close>

theorem night_macro_effects:
  assumes "reachable s"
  shows "lights_state (fst (apply_macro port port2 now ''Night'' s)) = ''Off'' \<and>
         current_temp (fst (apply_macro port port2 now ''Night'' s)) = 19 \<and>
         door_relay_state (fst (apply_macro port port2 now ''Night'' s)) = ''Off''"
  using assms
  by (intro night_macro_effects_offline_relays_off reachable_offline_relays_off)

theorem night_macro_effects_witness:
  "reachable
     (turn_on_door_relay (Inr ''OK'') 5
        (turn_on_lights (Inr (\<lambda>frame. Inr ''OK''))
           (try_connect_devices True
              (snd (start_all_monitoring (log_event ''System initialized'' (initial 0))))))) \<and>
   door_relay_state
     (turn_on_door_relay (Inr ''OK'') 5
        (turn_on_lights (Inr (\<lambda>frame. Inr ''OK''))
           (try_connect_devices True
              (snd (start_all_monitoring (log_event ''System initialized'' (initial 0)))))))
     = ''On'' \<and>
   lights_state (fst (apply_macro (Inr (\<lambda>frame. Inr ''OK'')) (Inr ''OK'') 9 ''Night''
     (turn_on_door_relay (Inr ''OK'') 5
        (turn_on_lights (Inr (\<lambda>frame. Inr ''OK''))
           (try_connect_devices True
              (snd (start_all_monitoring (log_event ''System initialized'' (initial 0)))))))))
     = ''Off'' \<and>
   current_temp (fst (apply_macro (Inr (\<lambda>frame. Inr ''OK'')) (Inr ''OK'') 9 ''Night''
     (turn_on_door_relay (Inr ''OK'') 5
        (turn_on_lights (Inr (\<lambda>frame. Inr ''OK''))
           (try_connect_devices True
              (snd (start_all_monitoring (log_event ''System initialized'' (initial 0)))))))))
     = 19 \<and>
   door_relay_state (fst (apply_macro (Inr (\<lambda>frame. Inr ''OK'')) (Inr ''OK'') 9 ''Night''
     (turn_on_door_relay (Inr ''OK'') 5
        (turn_on_lights (Inr (\<lambda>frame. Inr ''OK''))
           (try_connect_devices True
              (snd (start_all_monitoring (log_event ''System initialized'' (initial 0)))))))))
     = ''Off''"
  using reachable_lights_and_door_on
    night_macro_effects [OF reachable_lights_and_door_on,
      of "Inr (\<lambda>frame. Inr ''OK'')" "Inr ''OK''" 9]
  by (simp add: try_connect_devices_def start_all_monitoring_def)

lemma mode_fields_door [simp]:
  shows "auto_mode (turn_on_door_relay port2 now s) = auto_mode s"
    and "current_mode (turn_on_door_relay port2 now s) = current_mode s"
    and "auto_mode (turn_off_door_relay port2 s) = auto_mode s"
    and "current_mode (turn_off_door_relay port2 s) = current_mode s"
proof -
  obtain es where "turn_on_door_relay port2 now s =
     s\<lparr>door_relay_state := (if is_connected s then ''On'' else door_relay_state s),
       door_open_time := (if is_connected s \<and> \<not> isl port2 then now else door_open_time s),
       log_text := log_text s @ es\<rparr>"
    using turn_on_door_relay_frame [of port2 now s] by (rule exE)
  then show "auto_mode (turn_on_door_relay port2 now s) = auto_mode s"
    and "current_mode (turn_on_door_relay port2 now s) = current_mode s" by simp_all
  obtain es where "turn_off_door_relay port2 s =
     s\<lparr>door_relay_state := (if is_connected s then ''Off'' else door_relay_state s),
       log_text := log_text s @ es\<rparr>"
    using turn_off_door_relay_frame [of port2 s] by (rule exE)
  then show "auto_mode (turn_off_door_relay port2 s) = auto_mode s"
    and "current_mode (turn_off_door_relay port2 s) = current_mode s" by simp_all
qed

lemma starting_manual:
  assumes "starting s"
  shows "current_mode s = ''Manual''"
  using assms
proof (induction rule: starting.induct)
  case (started t0)
  show ?case by (simp add: start_all_monitoring_def initial_def)
next
  case (starting_temperature s float_str port fluctuation humidity_change)
  then show ?case by (simp add: monitor_temperature_body_def Let_def)
next
  case (starting_schedule s port port' current_time)
  then show ?case by (simp add: monitor_schedule_body_def Let_def)
next
  case (starting_energy s t_read t_store)
  then show ?case by (simp add: monitor_energy_usage_body_def Let_def)
qed

text \<open>
  In every state of the running controller whose mode is Auto or Energy Saving,
  \<^verbatim>\<open>auto_mode\<close> is set. (Not conversely: the check box of the schedule changes the mode
  and leaves \<^verbatim>\<open>auto_mode\<close> as it is.)
\<close>

lemma reachable_auto_modes:
  assumes "reachable s"
  shows "current_mode s = ''Auto'' \<or> current_mode s = ''Energy Saving'' \<Longrightarrow> auto_mode s"
  using assms
proof (induction rule: reachable.induct)
  case (connected s probe_ok)
  then show ?case
    using starting_manual [of s] by (simp add: try_connect_devices_def split: if_splits)
next
  case (check_box s b)
  then show ?case by (simp add: toggle_scheduled_mode_def split: if_splits)
next
  case (schedule_button s strptime_ok)
  then show ?case by (simp add: update_schedule_def Let_def split: if_splits)
next
  case (range_button s float_str)
  then show ?case by (simp add: set_temperature_range_def Let_def split: if_splits)
next
  case (mode_button s port mode)
  then show ?case by (simp add: change_mode_def Let_def split: if_splits)
next
  case (macro_button s port port2 now macro_name)
  then show ?case
    by (simp add: apply_macro_def Let_def split: option.splits if_splits)
next
  case (all_on_button s port port2 now)
  then show ?case by (simp add: all_systems_on_def)
next
  case (all_off_button s port port2)
  then show ?case by (simp add: all_systems_off_def)
next
  case (temperature_pass s float_str port fluctuation humidity_change)
  then show ?case by (simp add: monitor_temperature_body_def Let_def split: if_splits)
next
  case (schedule_pass s port port' current_time)
  then show ?case by (simp add: monitor_schedule_body_def Let_def split: if_splits)
next
  case (auto_mode_pass s port port2 now)
  then show ?case by (simp add: auto_mode_monitor_body_def Let_def split: if_splits)
next
  case (energy_pass s t_read t_store)
  then show ?case by (simp add: monitor_energy_usage_body_def Let_def)
qed simp_all

end
